theory Spec2Isabelle
  imports Complex_Main "HOL-Library.Sublist"
begin

section \<open>Text primitives\<close>

text \<open>
  Texts are lists of 8-bit characters, read as the code points 0..255 of a Python
  \<^verbatim>\<open>str\<close>. Within that range \<^verbatim>\<open>str.isspace\<close> (and the \<^verbatim>\<open>\s\<close> class of \<^verbatim>\<open>re\<close>) holds of the
  code points 9..13, 28..32, 133 and 160; \<^verbatim>\<open>str.lower\<close> maps A..Z and the upper-case letters
  192..222 (215 apart) to the code point 32 above.
\<close>

definition is_space :: "char \<Rightarrow> bool" where
  "is_space c = (let n = (of_char c :: nat) in
     (9 \<le> n \<and> n \<le> 13) \<or> (28 \<le> n \<and> n \<le> 32) \<or> n = 133 \<or> n = 160)"

definition is_digit :: "char \<Rightarrow> bool" where
  "is_digit c = (let n = (of_char c :: nat) in 48 \<le> n \<and> n \<le> 57)"

definition lower_char :: "char \<Rightarrow> char" where
  "lower_char c = (let n = (of_char c :: nat) in
     if (65 \<le> n \<and> n \<le> 90) \<or> (192 \<le> n \<and> n \<le> 222 \<and> n \<noteq> 215)
     then char_of (n + 32) else c)"

definition upper_char :: "char \<Rightarrow> char" where
  "upper_char c = (let n = (of_char c :: nat) in
     if (97 \<le> n \<and> n \<le> 122) \<or> (224 \<le> n \<and> n \<le> 254 \<and> n \<noteq> 247)
     then char_of (n - 32) else c)"

definition lower :: "string \<Rightarrow> string" where
  "lower s = map lower_char s"

text \<open>\<^verbatim>\<open>s.strip()\<close>: leading and trailing white space removed.\<close>

definition strip :: "string \<Rightarrow> string" where
  "strip s = rev (dropWhile is_space (rev (dropWhile is_space s)))"

text \<open>
  \<^verbatim>\<open>s.split()\<close>: the maximal runs of non-space characters, in order. The first argument
  is the word being read.
\<close>

fun split_loop :: "string \<Rightarrow> string \<Rightarrow> string list" where
  "split_loop w [] = (if w = [] then [] else [w])"
| "split_loop w (c # cs) =
     (if is_space c then (if w = [] then split_loop [] cs else w # split_loop [] cs)
      else split_loop (w @ [c]) cs)"

definition split :: "string \<Rightarrow> string list" where
  "split s = split_loop [] s"

text \<open>\<^verbatim>\<open>sep.join(parts)\<close>.\<close>

fun join :: "string \<Rightarrow> string list \<Rightarrow> string" where
  "join sep [] = []"
| "join sep [p] = p"
| "join sep (p # q # ps) = p @ sep @ join sep (q # ps)"

text \<open>\<^verbatim>\<open>needle in haystack\<close> on strings: the needle occurs as a contiguous block.\<close>

fun starts_with :: "string \<Rightarrow> string \<Rightarrow> bool" where
  "starts_with [] s = True"
| "starts_with (p # ps) [] = False"
| "starts_with (p # ps) (c # cs) = (p = c \<and> starts_with ps cs)"

fun contains :: "string \<Rightarrow> string \<Rightarrow> bool" where
  "contains needle [] = (needle = [])"
| "contains needle (c # cs) = (starts_with needle (c # cs) \<or> contains needle cs)"


section \<open>Extracted candidates\<close>

text \<open>
  The dictionaries that \<^verbatim>\<open>AIService\<close> builds. A quantity carries the key
  \<^verbatim>\<open>dimensions\<close> only when it came from the two-number pattern. Numbers that are Python
  floats are real numbers here: rounding to binary64 is not represented.
\<close>

record quantity =
  q_value :: real
  q_unit :: string
  raw_text :: string
  dimensions :: "real list option"

record candidate =
  intervention_type :: string
  description :: string
  location :: "string option"
  chainage :: "string option"
  specifications :: "(string \<times> string) list"
  quantities :: "quantity list"
  confidence_score :: real
  keywords_matched :: "string list"
  extraction_method :: string


section \<open>Deduplication of candidates (\<^verbatim>\<open>AIService._merge_similar_interventions\<close>)\<close>

type_synonym merge_key = "string \<times> string option \<times> string option"

definition key_of :: "candidate \<Rightarrow> merge_key" where
  "key_of c = (intervention_type c, location c, chainage c)"

text \<open>The loop over the candidates, with the set \<^verbatim>\<open>seen\<close> and the list \<^verbatim>\<open>unique\<close>.\<close>

fun merge_loop :: "candidate list \<Rightarrow> merge_key set \<Rightarrow> candidate list \<Rightarrow> candidate list" where
  "merge_loop [] seen unique = unique"
| "merge_loop (c # cs) seen unique =
     (if key_of c \<notin> seen then merge_loop cs (insert (key_of c) seen) (unique @ [c])
      else merge_loop cs seen unique)"

definition merge_similar_interventions :: "candidate list \<Rightarrow> candidate list" where
  "merge_similar_interventions interventions =
     (if interventions = [] then [] else merge_loop interventions {} [])"


section \<open>Confidence scoring (\<^verbatim>\<open>AIService._calculate_confidence\<close>)\<close>

definition word_count :: "string \<Rightarrow> nat" where
  "word_count sentence = length (split sentence)"

definition calculate_confidence :: "string \<Rightarrow> string list \<Rightarrow> quantity list \<Rightarrow> real" where
  "calculate_confidence sentence keywords qs =
     (let score = 0.5;
          score = score + min (real (length keywords) * 0.1) 0.3;
          score = (if qs \<noteq> [] then score + 0.2 else score);
          words = word_count sentence;
          score = (if 10 \<le> words \<and> words \<le> 100 then score + 0.1 else score)
      in min score 1.0)"


section \<open>Material derivation (\<^verbatim>\<open>AnalysisService._identify_materials\<close>)\<close>

record rule =
  rule_name :: string
  rule_unit :: string
  ratio :: real

record material =
  m_name :: string
  m_quantity :: real
  m_unit :: string
  m_category :: string
  m_is_estimate :: bool

definition mk_rule :: "string \<Rightarrow> string \<Rightarrow> real \<Rightarrow> rule" where
  "mk_rule n u r = \<lparr>rule_name = n, rule_unit = u, ratio = r\<rparr>"

definition material_rules :: "(string \<times> rule list) list" where
  "material_rules =
     [(''Safety Barrier'',
         [mk_rule ''Steel Crash Barrier'' ''m'' 1.0, mk_rule ''Guardrail Post'' ''nos'' 0.33]),
      (''Road Marking'',
         [mk_rule ''Thermoplastic Paint'' ''kg'' 0.5, mk_rule ''Glass Beads'' ''kg'' 0.1]),
      (''Traffic Calming'',
         [mk_rule ''Rumble Strip'' ''m'' 1.0]),
      (''Signage'',
         [mk_rule ''Traffic Sign Board'' ''sqm'' 1.0, mk_rule ''Sign Post'' ''nos'' 1.0]),
      (''Pedestrian Facility'',
         [mk_rule ''Footpath Paving'' ''sqm'' 1.0, mk_rule ''Pedestrian Railing'' ''m'' 1.0]),
      (''Illumination'',
         [mk_rule ''LED Street Light'' ''nos'' 1.0, mk_rule ''Light Pole'' ''nos'' 1.0]),
      (''Delineation'',
         [mk_rule ''Cat Eye Road Stud'' ''nos'' 1.0, mk_rule ''Flexible Delineator'' ''nos'' 1.0])]"

text \<open>
  \<^verbatim>\<open>material_rules.get(intervention_type, [])\<close>, replaced by one generic rule named after the
  type when the table has no entry.
\<close>

definition rules_for :: "string \<Rightarrow> rule list" where
  "rules_for itype =
     (let rules = (case map_of material_rules itype of Some rs \<Rightarrow> rs | None \<Rightarrow> [])
      in if rules = [] then [mk_rule itype ''nos'' 1.0] else rules)"

text \<open>The test under the comment \<^verbatim>\<open># Match unit\<close>.\<close>

definition unit_matches :: "rule \<Rightarrow> quantity \<Rightarrow> bool" where
  "unit_matches r q =
     (q_unit q \<in> set [rule_unit r, ''m'', ''meter'', ''metre'']
      \<and> rule_unit r \<in> set [''m'', ''meter''])"

text \<open>
  The inner \<^verbatim>\<open>for qty in quantities: ... break / else: ...\<close>: the first quantity that passes
  the test is used; when the loop runs to its end the \<^verbatim>\<open>else\<close> branch takes
  \<^verbatim>\<open>quantities[0]\<close>, handed down as \<open>first\<close>.
\<close>

fun quantity_loop :: "string \<Rightarrow> rule \<Rightarrow> quantity \<Rightarrow> quantity list \<Rightarrow> material" where
  "quantity_loop itype r first [] =
     \<lparr>m_name = rule_name r, m_quantity = q_value first * ratio r, m_unit = rule_unit r,
      m_category = itype, m_is_estimate = False\<rparr>"
| "quantity_loop itype r first (q # qs) =
     (if unit_matches r q
      then \<lparr>m_name = rule_name r, m_quantity = q_value q * ratio r, m_unit = rule_unit r,
            m_category = itype, m_is_estimate = False\<rparr>
      else quantity_loop itype r first qs)"

definition material_for_rule :: "string \<Rightarrow> quantity list \<Rightarrow> rule \<Rightarrow> material" where
  "material_for_rule itype qs r =
     (case qs of
        q0 # _ \<Rightarrow> quantity_loop itype r q0 qs
      | [] \<Rightarrow> \<lparr>m_name = rule_name r, m_quantity = 100.0 * ratio r, m_unit = rule_unit r,
               m_category = itype, m_is_estimate = True\<rparr>)"

definition identify_materials :: "candidate \<Rightarrow> material list" where
  "identify_materials intervention_data =
     map (material_for_rule (intervention_type intervention_data)
            (quantities intervention_data))
         (rules_for (intervention_type intervention_data))"


section \<open>Regular expressions as \<^verbatim>\<open>re.findall\<close> evaluates them\<close>

text \<open>
  The patterns of this program use character classes, literals, sequence, ordered
  alternation, greedy and lazy repetition and capturing groups, nothing else. A pattern is
  matched by backtracking: \<open>matches\<close> lists every way of matching a pattern at the head
  of a text, as the remaining text and the groups captured, in the order in which the
  backtracking search of \<^verbatim>\<open>re\<close> tries them; the head of the list is the match that
  \<^verbatim>\<open>re\<close> reports. The flag says whether \<^verbatim>\<open>re.IGNORECASE\<close> is set. A repetition stops after an
  iteration that consumed nothing.
\<close>

datatype atom = Digit | Space | Ch char | Rng char char

datatype rx =
    Eps
  | Cls "atom list"
  | Cat rx rx
  | Alt rx rx
  | Star rx
  | LazyStar rx
  | Grp nat rx

definition in_rng :: "char \<Rightarrow> char \<Rightarrow> char \<Rightarrow> bool" where
  "in_rng lo hi c = ((of_char lo :: nat) \<le> of_char c \<and> (of_char c :: nat) \<le> of_char hi)"

fun atom_ok :: "bool \<Rightarrow> atom \<Rightarrow> char \<Rightarrow> bool" where
  "atom_ok ic Digit c = is_digit c"
| "atom_ok ic Space c = is_space c"
| "atom_ok ic (Ch a) c = (if ic then lower_char c = lower_char a else c = a)"
| "atom_ok ic (Rng lo hi) c =
     (in_rng lo hi c \<or> (ic \<and> (in_rng lo hi (lower_char c) \<or> in_rng lo hi (upper_char c))))"

type_synonym caps = "(nat \<times> string) list"

fun matches :: "bool \<Rightarrow> rx \<Rightarrow> string \<Rightarrow> caps \<Rightarrow> (string \<times> caps) list" where
  "matches ic Eps s g = [(s, g)]"
| "matches ic (Cls as) s g =
     (case s of [] \<Rightarrow> [] | c # cs \<Rightarrow> if list_ex (\<lambda>a. atom_ok ic a c) as then [(cs, g)] else [])"
| "matches ic (Cat a b) s g =
     concat (map (\<lambda>(s', g'). matches ic b s' g') (matches ic a s g))"
| "matches ic (Alt a b) s g = matches ic a s g @ matches ic b s g"
| "matches ic (Star a) s g =
     concat (map (\<lambda>(s', g'). if length s' < length s then matches ic (Star a) s' g' else [])
                 (matches ic a s g))
     @ [(s, g)]"
| "matches ic (LazyStar a) s g =
     (s, g) #
     concat (map (\<lambda>(s', g'). if length s' < length s then matches ic (LazyStar a) s' g' else [])
                 (matches ic a s g))"
| "matches ic (Grp n a) s g =
     map (\<lambda>(s', g'). (s', (n, take (length s - length s') s) # g')) (matches ic a s g)"

definition Plus :: "rx \<Rightarrow> rx" where
  "Plus a = Cat a (Star a)"

definition LazyPlus :: "rx \<Rightarrow> rx" where
  "LazyPlus a = Cat a (LazyStar a)"

definition Opt :: "rx \<Rightarrow> rx" where
  "Opt a = Alt a Eps"

fun Lit :: "string \<Rightarrow> rx" where
  "Lit [] = Eps"
| "Lit [c] = Cls [Ch c]"
| "Lit (c # cs) = Cat (Cls [Ch c]) (Lit cs)"

fun Alts :: "rx list \<Rightarrow> rx" where
  "Alts [] = Eps"
| "Alts [a] = a"
| "Alts (a # as) = Alt a (Alts as)"

fun Cats :: "rx list \<Rightarrow> rx" where
  "Cats [] = Eps"
| "Cats [a] = a"
| "Cats (a # as) = Cat a (Cats as)"

text \<open>
  The tuple of groups 1..n of a match; a group that took no part in the match is the empty
  string.
\<close>

definition groups :: "nat \<Rightarrow> caps \<Rightarrow> string list" where
  "groups n g = map (\<lambda>i. case map_of g i of Some t \<Rightarrow> t | None \<Rightarrow> []) [1..<Suc n]"

text \<open>
  \<^verbatim>\<open>re.findall\<close> for a pattern with \<open>n\<close> groups: the leftmost match, then the search goes
  on where the match ended. No pattern of this program matches the empty string; should
  one do so, the search moves one character on.
\<close>

function findall :: "bool \<Rightarrow> rx \<Rightarrow> nat \<Rightarrow> string \<Rightarrow> string list list" where
  "findall ic r n s =
     (case matches ic r s [] of
        (s', g) # _ \<Rightarrow>
          groups n g #
            (if s = [] then []
             else if length s' < length s then findall ic r n s'
             else findall ic r n (tl s))
      | [] \<Rightarrow> (if s = [] then [] else findall ic r n (tl s)))"
  by pat_completeness auto
termination
  by (relation "measure (\<lambda>(ic, r, n, s). length s)") auto

text \<open>
  \<^verbatim>\<open>float(text)\<close> for the decimal numerals that the patterns capture (digits, then
  optionally a point and digits); anything else raises \<^verbatim>\<open>ValueError\<close>.
\<close>

definition digit_val :: "char \<Rightarrow> nat" where
  "digit_val c = of_char c - 48"

definition digits_val :: "string \<Rightarrow> nat" where
  "digits_val ds = foldl (\<lambda>n c. 10 * n + digit_val c) 0 ds"

definition float_of :: "string \<Rightarrow> real option" where
  "float_of t =
     (let ip = takeWhile is_digit t; rest = dropWhile is_digit t
      in if ip = [] then None
         else if rest = [] then Some (real (digits_val ip))
         else if hd rest = CHR ''.'' \<and> tl rest \<noteq> [] \<and> list_all is_digit (tl rest)
         then Some (real (digits_val ip) + real (digits_val (tl rest)) / 10 ^ length (tl rest))
         else None)"


section \<open>Sample data\<close>

text \<open>A candidate with the given type, location, chainage and description.\<close>

definition sample_candidate ::
  "string \<Rightarrow> string option \<Rightarrow> string option \<Rightarrow> string \<Rightarrow> candidate" where
  "sample_candidate t l c d =
     \<lparr>intervention_type = t, description = d, location = l, chainage = c,
      specifications = [], quantities = [], confidence_score = 0.6, keywords_matched = [],
      extraction_method = ''hybrid_nlp''\<rparr>"

section \<open>Pattern extraction (\<^verbatim>\<open>AIService\<close>)\<close>

datatype error =
    ValueError string
  | IntegrityError
  | StoreError
  | RedisError
  | QueryError
  | ExtractionError
  | ReportError

definition intervention_keywords :: "string list" where
  "intervention_keywords =
     [''guardrail'', ''crash barrier'', ''rumble strip'', ''speed bump'', ''traffic sign'',
      ''road marking'', ''pedestrian crossing'', ''footpath'', ''footway'', ''sidewalk'',
      ''street light'', ''road light'', ''illumination'', ''delineator'', ''chevron'',
      ''road hump'', ''speed table'', ''roundabout'', ''junction improvement'',
      ''median'', ''divider'', ''kerb'', ''pavement'', ''shoulder'', ''verge'',
      ''drainage'', ''culvert'', ''catch pit'', ''gutter'', ''safety barrier'',
      ''parapet'', ''railing'', ''fence'', ''cattle guard'', ''road stud'', ''cat eye'',
      ''reflector'', ''signage'', ''information board'', ''milestone'', ''km stone'',
      ''warning sign'', ''mandatory sign'', ''regulatory sign'', ''guide sign'']"

text \<open>The numeral \<^verbatim>\<open>\d+(?:\.\d+)?\<close> and the separators shared by the patterns.\<close>

definition number :: rx where
  "number = Cat (Plus (Cls [Digit])) (Opt (Cat (Lit ''.'') (Plus (Cls [Digit]))))"

definition spaces :: rx where
  "spaces = Star (Cls [Space])"

definition colon_space_plus :: rx where
  "colon_space_plus = Plus (Cls [Ch CHR '':'', Space])"

definition metre_units :: rx where
  "metre_units = Alts [Lit ''m'', Lit ''meter'', Lit ''metre'']"

text \<open>\<^verbatim>\<open>quantity_patterns\<close>, each with the number of its groups.\<close>

definition quantity_patterns :: "(rx \<times> nat) list" where
  "quantity_patterns =
     [(Cats [Grp 1 number, spaces,
             Grp 2 (Alts [Lit ''km'', Lit ''kilometer'', Lit ''metre'', Lit ''meter'', Lit ''m'',
                          Lit ''sqm'', Cats [Lit ''square'', spaces, Lit ''meter''],
                          Cats [Lit ''cubic'', spaces, Lit ''meter''], Lit ''cum'', Lit ''ton'',
                          Lit ''tonne'',
                          Cats [Lit ''no'', Opt (Lit ''s''), Opt (Lit ''.'')],
                          Lit ''number'', Lit ''unit'', Lit ''set''])], 2),
      (Cats [Grp 1 number, spaces, Lit ''x'', spaces, Grp 2 number, spaces,
             Grp 3 metre_units], 3),
      (Cats [Lit ''length'', colon_space_plus, Grp 1 number, spaces,
             Grp 2 (Alts [Lit ''m'', Lit ''meter'', Lit ''metre'', Lit ''km''])], 2),
      (Cats [Lit ''width'', colon_space_plus, Grp 1 number, spaces, Grp 2 metre_units], 2),
      (Cats [Lit ''height'', colon_space_plus, Grp 1 number, spaces, Grp 2 metre_units], 2),
      (Cats [Lit ''area'', colon_space_plus, Grp 1 number, spaces,
             Grp 2 (Alts [Lit ''sqm'', Cats [Lit ''square'', spaces, Lit ''meter'']])], 2),
      (Cats [Lit ''volume'', colon_space_plus, Grp 1 number, spaces,
             Grp 2 (Alts [Lit ''cum'', Cats [Lit ''cubic'', spaces, Lit ''meter'']])], 2)]"

text \<open>
  \<^verbatim>\<open>_extract_quantities\<close>: the body of the loop over the matches of one pattern. A match
  with two groups is a number and a unit, one with three groups two numbers and a unit.
\<close>

definition quantity_of_match :: "string list \<Rightarrow> error + quantity option" where
  "quantity_of_match m =
     (case m of
        [v, u] \<Rightarrow>
          (case float_of v of
             None \<Rightarrow> Inl (ValueError v)
           | Some x \<Rightarrow> Inr (Some \<lparr>q_value = x, q_unit = strip (lower u),
                                   raw_text = v @ '' '' @ u, dimensions = None\<rparr>))
      | [v1, v2, u] \<Rightarrow>
          (case float_of v1 of
             None \<Rightarrow> Inl (ValueError v1)
           | Some x1 \<Rightarrow>
               (case float_of v2 of
                  None \<Rightarrow> Inl (ValueError v2)
                | Some x2 \<Rightarrow> Inr (Some \<lparr>q_value = x1 * x2, q_unit = strip (lower u),
                                         raw_text = v1 @ '' x '' @ v2 @ '' '' @ u,
                                         dimensions = Some [x1, x2]\<rparr>)))
      | _ \<Rightarrow> Inr None)"

fun quantities_of_matches :: "string list list \<Rightarrow> quantity list \<Rightarrow> error + quantity list" where
  "quantities_of_matches [] acc = Inr acc"
| "quantities_of_matches (m # ms) acc =
     (case quantity_of_match m of
        Inl e \<Rightarrow> Inl e
      | Inr None \<Rightarrow> quantities_of_matches ms acc
      | Inr (Some q) \<Rightarrow> quantities_of_matches ms (acc @ [q]))"

fun quantities_of_patterns ::
  "(rx \<times> nat) list \<Rightarrow> string \<Rightarrow> quantity list \<Rightarrow> error + quantity list" where
  "quantities_of_patterns [] text acc = Inr acc"
| "quantities_of_patterns ((r, n) # ps) text acc =
     (case quantities_of_matches (findall True r n text) acc of
        Inl e \<Rightarrow> Inl e
      | Inr acc' \<Rightarrow> quantities_of_patterns ps text acc')"

definition extract_quantities :: "string \<Rightarrow> error + quantity list" where
  "extract_quantities text = quantities_of_patterns quantity_patterns text []"

text \<open>
  The chainage pattern \<^verbatim>\<open>(?:km|chainage|ch\.?)[:\s]*(\d+(?:\.\d+)?)[+\s]*(\d+)?\<close>, applied to the
  lower-cased sentence without flags.
\<close>

definition chainage_pattern :: rx where
  "chainage_pattern =
     Cats [Alts [Lit ''km'', Lit ''chainage'', Cat (Lit ''ch'') (Opt (Lit ''.''))],
           Star (Cls [Ch CHR '':'', Space]),
           Grp 1 number,
           Star (Cls [Ch CHR ''+'', Space]),
           Opt (Grp 2 (Plus (Cls [Digit])))]"

definition extract_chainage :: "string \<Rightarrow> string option" where
  "extract_chainage sentence =
     (case findall False chainage_pattern 2 (lower sentence) of
        [km_text, plus_text] # _ \<Rightarrow>
          Some (''Km '' @ km_text @ (if plus_text \<noteq> [] then ''+'' @ plus_text else []))
      | _ \<Rightarrow> None)"

text \<open>\<^verbatim>\<open>_classify_intervention_type\<close>: the first category with a keyword in the text.\<close>

definition categories :: "(string \<times> string list) list" where
  "categories =
     [(''Safety Barrier'',
         [''guardrail'', ''crash barrier'', ''safety barrier'', ''parapet'', ''railing'']),
      (''Traffic Calming'', [''rumble strip'', ''speed bump'', ''road hump'', ''speed table'']),
      (''Signage'',
         [''traffic sign'', ''signage'', ''warning sign'', ''mandatory sign'', ''guide sign'',
          ''information board'']),
      (''Road Marking'', [''road marking'', ''pavement marking'', ''line marking'']),
      (''Pedestrian Facility'',
         [''pedestrian crossing'', ''footpath'', ''footway'', ''sidewalk'', ''zebra crossing'']),
      (''Illumination'', [''street light'', ''road light'', ''illumination'', ''lighting'']),
      (''Delineation'', [''delineator'', ''chevron'', ''road stud'', ''cat eye'', ''reflector'']),
      (''Drainage'', [''drainage'', ''culvert'', ''catch pit'', ''gutter'']),
      (''Junction Improvement'', [''roundabout'', ''junction'', ''intersection'']),
      (''Road Furniture'', [''milestone'', ''km stone'', ''cattle guard''])]"

fun classify_loop :: "(string \<times> string list) list \<Rightarrow> string \<Rightarrow> string" where
  "classify_loop [] text_lower = ''General Safety Intervention''"
| "classify_loop ((category, category_keywords) # rest) text_lower =
     (if list_ex (\<lambda>kw. contains kw text_lower) category_keywords then category
      else classify_loop rest text_lower)"

definition classify_intervention_type :: "string \<Rightarrow> string list \<Rightarrow> string" where
  "classify_intervention_type text keywords = classify_loop categories (lower text)"

text \<open>
  \<^verbatim>\<open>_extract_specifications\<close>: the named patterns, in the order of the dictionary. A pattern
  with one group yields strings, and the first is kept stripped; one with two groups yields
  tuples, and the first is kept joined by a blank.
\<close>

definition spec_end :: rx where
  "spec_end = Cls [Space, Ch CHR '','', Ch CHR ''.'']"

definition upper_alnum :: "atom list" where
  "upper_alnum = [Rng CHR ''A'' CHR ''Z'', Rng CHR ''0'' CHR ''9'']"

definition length_units :: rx where
  "length_units = Alts [Lit ''mm'', Lit ''cm'', Lit ''m'']"

definition spec_patterns :: "(string \<times> rx \<times> nat) list" where
  "spec_patterns =
     [(''material'',
         Cats [Alts [Lit ''made of'', Lit ''material'', Lit ''using''], Plus (Cls [Space]),
               Grp 1 (LazyPlus (Cls [Rng CHR ''a'' CHR ''z'', Rng CHR ''A'' CHR ''Z'', Space])),
               spec_end], 1),
      (''grade'', Cats [Lit ''grade'', colon_space_plus, Grp 1 (Plus (Cls upper_alnum))], 1),
      (''class'', Cats [Lit ''class'', colon_space_plus, Grp 1 (Plus (Cls upper_alnum))], 1),
      (''type'',
         Cats [Lit ''type'', colon_space_plus, Grp 1 (LazyPlus (Cls (upper_alnum @ [Space]))),
               spec_end], 1),
      (''thickness'',
         Cats [Lit ''thickness'', colon_space_plus, Grp 1 number, spaces, Grp 2 length_units], 2),
      (''diameter'',
         Cats [Lit ''diameter'', colon_space_plus, Grp 1 number, spaces, Grp 2 length_units], 2),
      (''height'',
         Cats [Lit ''height'', colon_space_plus, Grp 1 number, spaces, Grp 2 length_units], 2),
      (''width'',
         Cats [Lit ''width'', colon_space_plus, Grp 1 number, spaces, Grp 2 length_units], 2)]"

fun specs_loop :: "(string \<times> rx \<times> nat) list \<Rightarrow> string \<Rightarrow> (string \<times> string) list" where
  "specs_loop [] text = []"
| "specs_loop ((spec_name, r, n) # ps) text =
     (case findall True r n text of
        [] \<Rightarrow> specs_loop ps text
      | m # _ \<Rightarrow>
          (spec_name, if n = 1 then strip (hd m) else join '' '' m) # specs_loop ps text)"

definition extract_specifications :: "string \<Rightarrow> (string \<times> string) list" where
  "extract_specifications text = specs_loop spec_patterns text"

text \<open>
  The language model (spaCy) is outside the program: it is a parameter that splits a text
  into sentences and lists the named entities of a text with their labels.
\<close>

record nlp =
  sents :: "string \<Rightarrow> string list"
  ents :: "string \<Rightarrow> (string \<times> string) list"

text \<open>\<^verbatim>\<open>_extract_intervention_details\<close>.\<close>

definition extract_intervention_details ::
  "nlp \<Rightarrow> string \<Rightarrow> string list \<Rightarrow> string list \<Rightarrow> error + candidate" where
  "extract_intervention_details nl sentence keywords context_sentences =
     (let full_text = (if context_sentences \<noteq> [] then join '' '' context_sentences else sentence);
          locations = map fst (filter (\<lambda>(t, label). label \<in> set [''GPE'', ''LOC'', ''FAC''])
                                      (ents nl full_text));
          chainage_str = extract_chainage sentence
      in case extract_quantities full_text of
           Inl e \<Rightarrow> Inl e
         | Inr qs \<Rightarrow>
             Inr \<lparr>intervention_type = classify_intervention_type sentence keywords,
                  description = strip sentence,
                  location = (case locations of [] \<Rightarrow> None | l # _ \<Rightarrow> Some l),
                  chainage = chainage_str,
                  specifications = extract_specifications full_text,
                  quantities = qs,
                  confidence_score = calculate_confidence sentence keywords qs,
                  keywords_matched = keywords,
                  extraction_method = ''hybrid_nlp''\<rparr>)"

text \<open>
  \<^verbatim>\<open>extract_interventions\<close>: the loop over the sentences with their index, then the merge.
  The context of sentence \<open>i\<close> is \<^verbatim>\<open>sentences[max(0, i-1):min(len(sentences), i+2)]\<close>.
\<close>

definition context_window :: "string list \<Rightarrow> nat \<Rightarrow> string list" where
  "context_window sentences i = take (min (length sentences) (i + 2) - (i - 1)) (drop (i - 1) sentences)"

fun sentences_loop ::
  "nlp \<Rightarrow> string list \<Rightarrow> nat list \<Rightarrow> candidate list \<Rightarrow> error + candidate list" where
  "sentences_loop nl sentences [] acc = Inr acc"
| "sentences_loop nl sentences (i # is) acc =
     (let sentence = sentences ! i;
          sentence_lower = lower sentence;
          matched_keywords = filter (\<lambda>kw. contains kw sentence_lower) intervention_keywords
      in if matched_keywords \<noteq> []
         then (case extract_intervention_details nl sentence matched_keywords
                      (context_window sentences i) of
                 Inl e \<Rightarrow> Inl e
               | Inr intervention \<Rightarrow> sentences_loop nl sentences is (acc @ [intervention]))
         else sentences_loop nl sentences is acc)"

definition extract_interventions :: "nlp \<Rightarrow> string \<Rightarrow> error + candidate list" where
  "extract_interventions nl text =
     (let sentences = map strip (sents nl text)
      in case sentences_loop nl sentences [0..<length sentences] [] of
           Inl e \<Rightarrow> Inl e
         | Inr interventions \<Rightarrow> Inr (merge_similar_interventions interventions))"

section \<open>The durable store and its session\<close>

text \<open>
  The tables of \<^verbatim>\<open>app/db/models.py\<close>, with the columns that the pipeline reads or writes.
  Times are integers, seconds on the clock of the world. A session holds the committed tables and
  its own working copy: every read and write of the session goes to the working copy, a
  commit makes the working copy the committed state, a rollback discards it. Foreign keys
  are not enforced in this model; the unique constraint on the document of an analysis is.
\<close>

record document =
  doc_id :: nat
  file_path :: string
  extracted_text :: "string option"

record summary =
  interventions_by_type :: "(string \<times> nat) list"
  s_total_interventions :: nat
  s_total_cost :: real

record analysis =
  a_document_id :: nat
  analysis_started_at :: int
  analysis_completed_at :: "int option"
  analysis_duration_seconds :: "int option"
  total_interventions :: nat
  a_total_cost :: real
  a_assumptions :: "string list option"
  a_warnings :: "string list option"
  summary_data :: "summary option"
  report_path :: "string option"
  report_generated_at :: "int option"

record intervention_row =
  i_id :: nat
  i_document_id :: nat
  i_intervention_type :: string
  i_description :: string
  i_location :: "string option"
  i_chainage :: "string option"
  i_specifications :: "(string \<times> string) list"
  irc_standards :: "string list"
  irc_clauses :: "string list"
  i_confidence_score :: real
  i_extraction_method :: string

record cost_item =
  c_intervention_id :: nat
  c_material_name :: string
  c_material_category :: "string option"
  c_specification :: "string option"
  c_quantity :: real
  c_unit :: string
  c_unit_rate :: real
  c_total_cost :: real
  price_source :: string
  price_source_reference :: string
  price_fetched_at :: int

record price_cache =
  pc_material_name :: string
  pc_unit :: string
  pc_unit_rate :: real
  pc_source :: string
  pc_source_reference :: string
  valid_from :: int
  valid_until :: "int option"
  pc_fetched_at :: int
  cache_hits :: nat
  last_accessed :: int

record tables =
  documents :: "document list"
  analyses :: "analysis list"
  interventions :: "intervention_row list"
  cost_items :: "cost_item list"
  price_cache_rows :: "price_cache list"

record session =
  durable :: tables
  working :: tables

definition db_commit :: "session \<Rightarrow> session" where
  "db_commit s = s\<lparr>durable := working s\<rparr>"

definition db_rollback :: "session \<Rightarrow> session" where
  "db_rollback s = s\<lparr>working := durable s\<rparr>"

definition db_write :: "(tables \<Rightarrow> tables) \<Rightarrow> session \<Rightarrow> session" where
  "db_write f s = s\<lparr>working := f (working s)\<rparr>"


section \<open>The world of the pricing service\<close>

text \<open>
  The fast cache (Redis) maps a key to a pickled price with the time at which it expires;
  its \<^verbatim>\<open>get\<close> and \<^verbatim>\<open>setex\<close> may raise. \<^verbatim>\<open>redis_client\<close> is \<open>None\<close> when no connection was
  made. The store may fail the pricing service: the flag \<open>cache_query_fails\<close> makes the
  query on the durable cache raise, the flag \<open>cache_write_fails\<close> makes a write to the
  durable cache raise, be it the commit of a hit counter or that of a new row. The pricing
  service guards the write of a new row only. The state in which a failed commit leaves the
  session is not represented: the session goes on with its working copy. The log is that of
  the pricing service. The clock does not move during one call.
\<close>

record cached_price =
  cp_unit_rate :: real
  cp_source :: string
  cp_source_reference :: string
  cp_fetched_at :: int

record redis =
  entries :: "string \<rightharpoonup> cached_price \<times> int"
  get_raises :: bool
  setex_raises :: bool

record world =
  db :: session
  redis_client :: "redis option"
  cache_query_fails :: bool
  cache_write_fails :: bool
  now :: int
  log :: "string list"

definition REDIS_CACHE_TTL :: int where
  "REDIS_CACHE_TTL = 86400"

definition days :: "int \<Rightarrow> int" where
  "days n = n * 86400"

definition logger :: "string \<Rightarrow> world \<Rightarrow> world" where
  "logger msg w = w\<lparr>log := log w @ [msg]\<rparr>"

definition cache_key :: "string \<Rightarrow> string \<Rightarrow> string" where
  "cache_key material_name unit = ''price:'' @ material_name @ '':'' @ unit"

definition redis_get :: "redis \<Rightarrow> int \<Rightarrow> string \<Rightarrow> error + cached_price option" where
  "redis_get r t k =
     (if get_raises r then Inl RedisError
      else Inr (case entries r k of
                  Some (v, expires) \<Rightarrow> if t < expires then Some v else None
                | None \<Rightarrow> None))"

definition redis_setex :: "redis \<Rightarrow> int \<Rightarrow> string \<Rightarrow> int \<Rightarrow> cached_price \<Rightarrow> error + redis" where
  "redis_setex r t k ttl v =
     (if setex_raises r then Inl RedisError
      else Inr (r\<lparr>entries := (entries r)(k \<mapsto> (v, t + ttl))\<rparr>))"


section \<open>Price resolution (\<^verbatim>\<open>PricingService\<close>)\<close>

record material_info =
  mi_category :: string
  mi_unit :: string
  cpwd_code :: "string option"
  gem_category :: "string option"
  mi_specifications :: string
  typical_rate :: real

definition mk_info ::
  "string \<Rightarrow> string \<Rightarrow> string \<Rightarrow> string option \<Rightarrow> string \<Rightarrow> real \<Rightarrow> material_info" where
  "mk_info c u code gem sp rate =
     \<lparr>mi_category = c, mi_unit = u, cpwd_code = Some code, gem_category = gem,
      mi_specifications = sp, typical_rate = rate\<rparr>"

definition material_database :: "(string \<times> material_info) list" where
  "material_database =
     [(''Steel Crash Barrier'',
         mk_info ''Safety Barrier'' ''m'' ''CPWD-SOR-2023-12.45'' (Some ''Road Safety Equipment'')
           ''Galvanized steel W-beam, AASHTO M-180'' 1850.0),
      (''Concrete Safety Barrier'',
         mk_info ''Safety Barrier'' ''m'' ''CPWD-SOR-2023-12.46'' None
           ''RCC Jersey barrier, M30 grade'' 2200.0),
      (''Guardrail Post'',
         mk_info ''Safety Barrier'' ''nos'' ''CPWD-SOR-2023-12.47'' None
           ''MS post, galvanized, 2.5m height'' 850.0),
      (''Thermoplastic Paint'',
         mk_info ''Road Marking'' ''kg'' ''CPWD-SOR-2023-18.23'' (Some ''Road Marking Materials'')
           ''White/yellow thermoplastic, Type-II'' 185.0),
      (''Cold Paint'',
         mk_info ''Road Marking'' ''ltr'' ''CPWD-SOR-2023-18.24'' None
           ''Chlorinated rubber based paint'' 95.0),
      (''Glass Beads'',
         mk_info ''Road Marking'' ''kg'' ''CPWD-SOR-2023-18.25'' None
           ''Retroreflective glass beads, Type-A'' 42.0),
      (''Cat Eye Road Stud'',
         mk_info ''Delineation'' ''nos'' ''CPWD-SOR-2023-18.31'' (Some ''Road Safety Equipment'')
           ''Reflective, aluminum body'' 125.0),
      (''Solar Road Stud'',
         mk_info ''Delineation'' ''nos'' ''CPWD-SOR-2023-18.32'' None
           ''LED, solar powered, IP68'' 850.0),
      (''Traffic Sign Board'',
         mk_info ''Signage'' ''sqm'' ''CPWD-SOR-2023-18.15'' (Some ''Traffic Signs'')
           ''Aluminum sheet, Grade-III retroreflective'' 3200.0),
      (''Sign Post'',
         mk_info ''Signage'' ''nos'' ''CPWD-SOR-2023-18.16'' None
           ''MS square hollow section, galvanized'' 1850.0),
      (''Rumble Strip'',
         mk_info ''Traffic Calming'' ''m'' ''CPWD-SOR-2023-18.42'' None
           ''Thermoplastic or milled asphalt'' 450.0),
      (''Speed Hump'',
         mk_info ''Traffic Calming'' ''nos'' ''CPWD-SOR-2023-18.43'' None
           ''Rubber/plastic, 3.7m x 350mm x 50mm'' 4500.0),
      (''Footpath Paving'',
         mk_info ''Pedestrian Facility'' ''sqm'' ''CPWD-SOR-2023-14.35'' None
           ''Concrete paver blocks, 60mm thick'' 425.0),
      (''Tactile Paving'',
         mk_info ''Pedestrian Facility'' ''sqm'' ''CPWD-SOR-2023-14.36'' None
           ''Warning/directional tiles, vitrified'' 850.0),
      (''Pedestrian Railing'',
         mk_info ''Pedestrian Facility'' ''m'' ''CPWD-SOR-2023-12.52'' None
           ''MS railing, powder coated, 1.1m height'' 1250.0),
      (''LED Street Light'',
         mk_info ''Illumination'' ''nos'' ''CPWD-SOR-2023-16.25'' (Some ''LED Street Lights'')
           ''150W LED, IP65, 4000K'' 12500.0),
      (''Light Pole'',
         mk_info ''Illumination'' ''nos'' ''CPWD-SOR-2023-16.26'' None
           ''MS octagonal pole, 9m, galvanized'' 8500.0),
      (''Flexible Delineator'',
         mk_info ''Delineation'' ''nos'' ''CPWD-SOR-2023-18.35'' None
           ''PU/rubber, 750mm, retroreflective'' 650.0),
      (''Chevron Marker'',
         mk_info ''Delineation'' ''nos'' ''CPWD-SOR-2023-18.36'' None
           ''Aluminum, Grade-I retroreflective'' 1250.0)]"

text \<open>
  The query on the durable cache: the rows for the material and unit whose
  \<^verbatim>\<open>valid_until\<close> lies after now (a row without it never qualifies), ordered by
  \<^verbatim>\<open>fetched_at\<close> descending, the first of them. Among rows fetched at the same time the one
  earliest in the table is taken. The row is identified by its position in the table.
\<close>

definition valid_entry :: "string \<Rightarrow> string \<Rightarrow> int \<Rightarrow> price_cache \<Rightarrow> bool" where
  "valid_entry material_name unit t row =
     (pc_material_name row = material_name \<and> pc_unit row = unit
      \<and> (case valid_until row of Some u \<Rightarrow> t < u | None \<Rightarrow> False))"

fun newest :: "(nat \<times> price_cache) list \<Rightarrow> (nat \<times> price_cache) option" where
  "newest [] = None"
| "newest (x # xs) =
     (case newest xs of
        None \<Rightarrow> Some x
      | Some y \<Rightarrow> if pc_fetched_at (snd x) < pc_fetched_at (snd y) then Some y else Some x)"

definition query_price_cache ::
  "string \<Rightarrow> string \<Rightarrow> int \<Rightarrow> price_cache list \<Rightarrow> (nat \<times> price_cache) option" where
  "query_price_cache material_name unit t rows =
     newest (filter (\<lambda>(i, row). valid_entry material_name unit t row) (enumerate 0 rows))"

text \<open>
  The block \<^verbatim>\<open># Try database cache\<close> of \<^verbatim>\<open>_get_cached_price\<close>. Neither the query nor the
  commit of the hit counter is guarded: an error of the store is raised to the caller.
\<close>

definition get_cached_price_db ::
  "world \<Rightarrow> string \<Rightarrow> string \<Rightarrow> (error + cached_price option) \<times> world" where
  "get_cached_price_db w material_name unit =
     (if cache_query_fails w then (Inl StoreError, w)
      else
        (case query_price_cache material_name unit (now w) (price_cache_rows (working (db w))) of
           Some (i, cache_entry) \<Rightarrow>
             (let touched = cache_entry\<lparr>cache_hits := cache_hits cache_entry + 1,
                                         last_accessed := now w\<rparr>;
                  s = db_write (\<lambda>t. t\<lparr>price_cache_rows := (price_cache_rows t)[i := touched]\<rparr>)
                        (db w)
              in if cache_write_fails w then (Inl StoreError, w\<lparr>db := s\<rparr>)
                 else (Inr (Some \<lparr>cp_unit_rate = pc_unit_rate cache_entry,
                                   cp_source = pc_source cache_entry,
                                   cp_source_reference = pc_source_reference cache_entry,
                                   cp_fetched_at = pc_fetched_at cache_entry\<rparr>),
                       w\<lparr>db := db_commit s\<rparr>))
         | None \<Rightarrow> (Inr None, w)))"

text \<open>The block \<^verbatim>\<open># Try Redis first\<close> of \<^verbatim>\<open>_get_cached_price\<close>, then the whole function.\<close>

definition get_cached_price_redis ::
  "world \<Rightarrow> string \<Rightarrow> string \<Rightarrow> cached_price option \<times> world" where
  "get_cached_price_redis w material_name unit =
     (case redis_client w of
        Some r \<Rightarrow>
          (case redis_get r (now w) (cache_key material_name unit) of
             Inr (Some cached) \<Rightarrow> (Some cached, w)
           | Inr None \<Rightarrow> (None, w)
           | Inl e \<Rightarrow> (None, logger ''Redis get error'' w))
      | None \<Rightarrow> (None, w))"

definition get_cached_price ::
  "world \<Rightarrow> string \<Rightarrow> string \<Rightarrow> (error + cached_price option) \<times> world" where
  "get_cached_price w material_name unit =
     (case get_cached_price_redis w material_name unit of
        (Some cached, w0) \<Rightarrow> (Inr (Some cached), w0)
      | (None, w0) \<Rightarrow> get_cached_price_db w0 material_name unit)"

record fetched_price =
  f_unit_rate :: real
  f_source :: string
  f_reference :: string

definition fetch_from_cpwd_sor :: "world \<Rightarrow> string \<Rightarrow> string \<Rightarrow> fetched_price option \<times> world" where
  "fetch_from_cpwd_sor w material_name unit =
     (None, logger (''Attempting to fetch '' @ material_name @ '' from CPWD SOR'') w)"

definition fetch_from_gem :: "world \<Rightarrow> string \<Rightarrow> string \<Rightarrow> fetched_price option \<times> world" where
  "fetch_from_gem w material_name unit =
     (None, logger (''Attempting to fetch '' @ material_name @ '' from GeM'') w)"

definition fetch_price_from_sources ::
  "world \<Rightarrow> string \<Rightarrow> string \<Rightarrow> fetched_price option \<times> world" where
  "fetch_price_from_sources w material_name unit =
     (case map_of material_database material_name of
        Some material_info \<Rightarrow>
          (Some \<lparr>f_unit_rate = typical_rate material_info, f_source = ''CPWD_SOR'',
                 f_reference = (case cpwd_code material_info of Some c \<Rightarrow> c | None \<Rightarrow> [])\<rparr>, w)
      | None \<Rightarrow>
          (case fetch_from_cpwd_sor w material_name unit of
             (Some cpwd_price, w1) \<Rightarrow> (Some cpwd_price, w1)
           | (None, w1) \<Rightarrow>
               (case fetch_from_gem w1 material_name unit of
                  (Some gem_price, w2) \<Rightarrow> (Some gem_price, w2)
                | (None, w2) \<Rightarrow> (None, w2))))"

record price_data =
  p_material_name :: string
  p_quantity :: real
  p_unit :: string
  p_unit_rate :: real
  p_total_cost :: real
  p_source :: string
  p_source_reference :: string
  p_fetched_at :: int
  from_cache :: bool
  is_estimate :: bool
  requires_verification :: bool

text \<open>
  The fuzzy retry of \<^verbatim>\<open>_get_fallback_price\<close>: the first entry of the table, in its order,
  whose lower-cased name contains the lower-cased material name or is contained in it.
\<close>

fun fuzzy_match :: "(string \<times> material_info) list \<Rightarrow> string \<Rightarrow> (string \<times> material_info) option" where
  "fuzzy_match [] material_name_lower = None"
| "fuzzy_match ((mat_name, mat_info) # rest) material_name_lower =
     (if contains material_name_lower (lower mat_name) \<or> contains (lower mat_name) material_name_lower
      then Some (mat_name, mat_info)
      else fuzzy_match rest material_name_lower)"

definition get_fallback_price :: "world \<Rightarrow> string \<Rightarrow> real \<Rightarrow> string \<Rightarrow> price_data \<times> world" where
  "get_fallback_price w material_name quantity unit =
     (let found = (case map_of material_database material_name of
                     Some material_info \<Rightarrow> Some (material_name, material_info)
                   | None \<Rightarrow> fuzzy_match material_database (lower material_name))
      in case found of
           Some (name, material_info) \<Rightarrow>
             (\<lparr>p_material_name = name, p_quantity = quantity, p_unit = unit,
               p_unit_rate = typical_rate material_info,
               p_total_cost = quantity * typical_rate material_info,
               p_source = ''Material_Database'',
               p_source_reference =
                 (case cpwd_code material_info of Some c \<Rightarrow> c | None \<Rightarrow> ''Estimated''),
               p_fetched_at = now w, from_cache = False, is_estimate = True,
               requires_verification = False\<rparr>, w)
         | None \<Rightarrow>
             (\<lparr>p_material_name = material_name, p_quantity = quantity, p_unit = unit,
               p_unit_rate = 1000.0, p_total_cost = quantity * 1000.0,
               p_source = ''Estimated'',
               p_source_reference = ''Generic Rate (Verification Required)'',
               p_fetched_at = now w, from_cache = False, is_estimate = True,
               requires_verification = True\<rparr>,
              logger (''No price found for '' @ material_name @ '', using generic rate'') w))"

text \<open>\<^verbatim>\<open>_cache_price\<close>: both writes are guarded, a failure is logged and swallowed.\<close>

definition cache_price :: "world \<Rightarrow> string \<Rightarrow> string \<Rightarrow> fetched_price \<Rightarrow> world" where
  "cache_price w material_name unit pd =
     (let w1 = (case redis_client w of
                  Some r \<Rightarrow>
                    (case redis_setex r (now w) (cache_key material_name unit) REDIS_CACHE_TTL
                            \<lparr>cp_unit_rate = f_unit_rate pd, cp_source = f_source pd,
                             cp_source_reference = f_reference pd, cp_fetched_at = now w\<rparr> of
                       Inr r' \<Rightarrow> w\<lparr>redis_client := Some r'\<rparr>
                     | Inl e \<Rightarrow> logger ''Redis cache error'' w)
                | None \<Rightarrow> w)
      in if cache_write_fails w1
         then (logger ''Database cache error'' w1)\<lparr>db := db_rollback (db w1)\<rparr>
         else w1\<lparr>db := db_commit (db_write (\<lambda>t. t\<lparr>price_cache_rows := price_cache_rows t @
                    [\<lparr>pc_material_name = material_name, pc_unit = unit,
                      pc_unit_rate = f_unit_rate pd, pc_source = f_source pd,
                      pc_source_reference = f_reference pd, valid_from = now w1,
                      valid_until = Some (now w1 + days 90), pc_fetched_at = now w1,
                      cache_hits = 0, last_accessed = now w1\<rparr>]\<rparr>) (db w1))\<rparr>)"

text \<open>
  \<^verbatim>\<open>get_material_price\<close>: an error raised by the cache lookup leaves the function; the
  rest of the chain does not raise.
\<close>

definition get_material_price ::
  "world \<Rightarrow> string \<Rightarrow> real \<Rightarrow> string \<Rightarrow> (error + price_data) \<times> world" where
  "get_material_price w material_name quantity unit =
     (case get_cached_price w material_name unit of
        (Inl e, w1) \<Rightarrow> (Inl e, w1)
      | (Inr (Some cached_price), w1) \<Rightarrow>
          (Inr \<lparr>p_material_name = material_name, p_quantity = quantity, p_unit = unit,
            p_unit_rate = cp_unit_rate cached_price,
            p_total_cost = quantity * cp_unit_rate cached_price,
            p_source = cp_source cached_price,
            p_source_reference = cp_source_reference cached_price,
            p_fetched_at = cp_fetched_at cached_price, from_cache = True,
            is_estimate = False, requires_verification = False\<rparr>,
           logger (''Using cached price for '' @ material_name) w1)
      | (Inr None, w1) \<Rightarrow>
          (case fetch_price_from_sources w1 material_name unit of
             (Some pd, w2) \<Rightarrow>
               (Inr \<lparr>p_material_name = material_name, p_quantity = quantity, p_unit = unit,
                 p_unit_rate = f_unit_rate pd, p_total_cost = quantity * f_unit_rate pd,
                 p_source = f_source pd, p_source_reference = f_reference pd,
                 p_fetched_at = now w2, from_cache = False,
                 is_estimate = False, requires_verification = False\<rparr>,
                cache_price w2 material_name unit pd)
           | (None, w2) \<Rightarrow>
               (case get_fallback_price w2 material_name quantity unit of
                  (pd, w3) \<Rightarrow> (Inr pd, w3))))"

section \<open>Standards retrieval (\<^verbatim>\<open>RAGService.find_relevant_standards\<close>)\<close>

text \<open>
  The vector index (Chroma) is outside the program. It is given by the documents it ranks
  for a query text, nearest first, each with its metadata and, when the answer carries
  distances, its distance; a query may raise, and it does when the index is not available
  or when fewer than one result is requested. At most the number of results asked for is
  returned. \<^verbatim>\<open>irc_standards_db\<close> is the dictionary of the service.
\<close>

record metadata =
  md_code :: "string option"
  md_clause :: "string option"

record hit =
  hit_id :: string
  hit_metadata :: metadata
  hit_distance :: "real option"

record standard_info =
  si_title :: string
  si_description :: string

record rag =
  query_fails :: bool
  ranked :: "string \<Rightarrow> hit list"
  irc_standards_db :: "string \<rightharpoonup> standard_info"

definition collection_query :: "rag \<Rightarrow> string \<Rightarrow> nat \<Rightarrow> error + hit list" where
  "collection_query rg query_text n_results =
     (if query_fails rg \<or> n_results = 0 then Inl QueryError
      else Inr (take n_results (ranked rg query_text)))"

record standard =
  s_code :: string
  s_title :: string
  s_description :: string
  relevance_score :: real
  matched_clause :: "string option"

definition standard_of_hit :: "rag \<Rightarrow> string \<Rightarrow> hit \<Rightarrow> standard" where
  "standard_of_hit rg code h =
     (let distance = (case hit_distance h of Some d \<Rightarrow> d | None \<Rightarrow> 1.0)
      in \<lparr>s_code = code,
          s_title = (case irc_standards_db rg code of Some i \<Rightarrow> si_title i | None \<Rightarrow> []),
          s_description =
            (case irc_standards_db rg code of Some i \<Rightarrow> si_description i | None \<Rightarrow> []),
          relevance_score = 1.0 - min distance 1.0,
          matched_clause = md_clause (hit_metadata h)\<rparr>)"

text \<open>
  The loop over the answer, with the set \<^verbatim>\<open>seen_codes\<close> and the list
  \<^verbatim>\<open>relevant_standards\<close>; it breaks when the list has reached \<^verbatim>\<open>top_k\<close> entries.
\<close>

fun standards_loop :: "rag \<Rightarrow> nat \<Rightarrow> hit list \<Rightarrow> string set \<Rightarrow> standard list \<Rightarrow> standard list" where
  "standards_loop rg top_k [] seen_codes relevant_standards = relevant_standards"
| "standards_loop rg top_k (h # hs) seen_codes relevant_standards =
     (case md_code (hit_metadata h) of
        Some code \<Rightarrow>
          if code \<noteq> [] \<and> code \<notin> seen_codes
          then (let relevant_standards' = relevant_standards @ [standard_of_hit rg code h]
                in if top_k \<le> length relevant_standards' then relevant_standards'
                   else standards_loop rg top_k hs (insert code seen_codes) relevant_standards')
          else standards_loop rg top_k hs seen_codes relevant_standards
      | None \<Rightarrow> standards_loop rg top_k hs seen_codes relevant_standards)"

definition search_query :: "candidate \<Rightarrow> string" where
  "search_query intervention =
     (let query_parts = [intervention_type intervention, description intervention,
                         join '' '' (keywords_matched intervention)]
      in strip (join '' '' (filter (\<lambda>p. p \<noteq> []) query_parts)))"

text \<open>The body of the \<^verbatim>\<open>try\<close>, and the function with its handler.\<close>

definition find_relevant_standards_try :: "rag \<Rightarrow> candidate \<Rightarrow> nat \<Rightarrow> error + standard list" where
  "find_relevant_standards_try rg intervention top_k =
     (let query_text = search_query intervention
      in if query_text = [] then Inr []
         else (case collection_query rg query_text (top_k * 2) of
                 Inl e \<Rightarrow> Inl e
               | Inr results \<Rightarrow> Inr (standards_loop rg top_k results {} [])))"

definition find_relevant_standards :: "rag \<Rightarrow> candidate \<Rightarrow> nat \<Rightarrow> standard list" where
  "find_relevant_standards rg intervention top_k =
     (case find_relevant_standards_try rg intervention top_k of
        Inl e \<Rightarrow> []
      | Inr relevant_standards \<Rightarrow> relevant_standards)"


section \<open>The pipeline (\<^verbatim>\<open>AnalysisService\<close>)\<close>

record cost_data =
  cd_total_cost :: real
  cd_assumptions :: "string list"
  cd_warnings :: "string list"

text \<open>
  The loop of \<^verbatim>\<open>_calculate_intervention_cost\<close> over the materials. An error raised by the
  price lookup is caught: it becomes a warning, and the loop goes on with the next material.
\<close>

fun materials_loop :: "world \<Rightarrow> nat \<Rightarrow> material list \<Rightarrow> cost_data \<Rightarrow> cost_data \<times> world" where
  "materials_loop w intervention_id [] acc = (acc, w)"
| "materials_loop w intervention_id (m # ms) acc =
     (case get_material_price w (m_name m) (m_quantity m) (m_unit m) of
        (Inl e, w1) \<Rightarrow>
          materials_loop w1 intervention_id ms
            (acc\<lparr>cd_warnings := cd_warnings acc @ [''Failed to get price for '' @ m_name m]\<rparr>)
      | (Inr pd, w1) \<Rightarrow>
          (let cost_item = \<lparr>c_intervention_id = intervention_id, c_material_name = m_name m,
                            c_material_category = Some (m_category m), c_specification = None,
                            c_quantity = m_quantity m, c_unit = m_unit m,
                            c_unit_rate = p_unit_rate pd, c_total_cost = p_total_cost pd,
                            price_source = p_source pd,
                            price_source_reference = p_source_reference pd,
                            price_fetched_at = p_fetched_at pd\<rparr>;
               w2 = w1\<lparr>db := db_write (\<lambda>t. t\<lparr>cost_items := cost_items t @ [cost_item]\<rparr>) (db w1)\<rparr>;
               acc' = \<lparr>cd_total_cost = cd_total_cost acc + p_total_cost pd,
                       cd_assumptions =
                         (if is_estimate pd
                          then cd_assumptions acc @ [''Estimated rate used for '' @ m_name m]
                          else cd_assumptions acc),
                       cd_warnings =
                         (if requires_verification pd
                          then cd_warnings acc @ [''Price verification required for '' @ m_name m]
                          else cd_warnings acc)\<rparr>
           in materials_loop w2 intervention_id ms acc'))"

definition calculate_intervention_cost ::
  "world \<Rightarrow> candidate \<Rightarrow> nat \<Rightarrow> cost_data option \<times> world" where
  "calculate_intervention_cost w intervention_data intervention_id =
     (let materials = identify_materials intervention_data
      in if materials = [] then (None, w)
         else (case materials_loop w intervention_id materials
                      \<lparr>cd_total_cost = 0.0, cd_assumptions = [], cd_warnings = []\<rparr> of
                 (cd, w') \<Rightarrow> (Some cd, w')))"

text \<open>The collaborators of the pipeline: text extraction, language model, index, report.\<close>

record env =
  extract_text :: "string \<Rightarrow> error + string"
  language :: nlp
  standards :: rag
  generate_report :: "nat \<Rightarrow> intervention_row list \<Rightarrow> real \<Rightarrow> error + string"

record totals =
  t_total_cost :: real
  t_assumptions :: "string list"
  t_warnings :: "string list"

definition clause_refs :: "standard list \<Rightarrow> string list" where
  "clause_refs stds =
     concat (map (\<lambda>std. case matched_clause std of
                          Some cl \<Rightarrow> if cl \<noteq> [] then [s_code std @ '' - Clause '' @ cl] else []
                        | None \<Rightarrow> []) stds)"

text \<open>The loop of \<^verbatim>\<open>process_document\<close> over the extracted interventions.\<close>

fun interventions_loop ::
  "env \<Rightarrow> world \<Rightarrow> nat \<Rightarrow> candidate list \<Rightarrow> totals \<Rightarrow> totals \<times> world" where
  "interventions_loop e w document_id [] acc = (acc, w)"
| "interventions_loop e w document_id (intervention_data # rest) acc =
     (let irc = find_relevant_standards (standards e) intervention_data 3;
          new_id = Suc (length (interventions (working (db w))));
          intervention =
            \<lparr>i_id = new_id, i_document_id = document_id,
             i_intervention_type = intervention_type intervention_data,
             i_description = description intervention_data,
             i_location = location intervention_data,
             i_chainage = chainage intervention_data,
             i_specifications = specifications intervention_data,
             irc_standards = map s_code irc, irc_clauses = clause_refs irc,
             i_confidence_score = confidence_score intervention_data,
             i_extraction_method = extraction_method intervention_data\<rparr>;
          w1 = w\<lparr>db := db_write (\<lambda>t. t\<lparr>interventions := interventions t @ [intervention]\<rparr>) (db w)\<rparr>
      in case calculate_intervention_cost w1 intervention_data new_id of
           (Some cd, w2) \<Rightarrow>
             interventions_loop e w2 document_id rest
               \<lparr>t_total_cost = t_total_cost acc + cd_total_cost cd,
                t_assumptions = t_assumptions acc @ cd_assumptions cd,
                t_warnings = t_warnings acc @ cd_warnings cd\<rparr>
         | (None, w2) \<Rightarrow> interventions_loop e w2 document_id rest acc)"

fun summarize_by_type :: "candidate list \<Rightarrow> (string \<times> nat) list \<Rightarrow> (string \<times> nat) list" where
  "summarize_by_type [] summ = summ"
| "summarize_by_type (c # cs) summ =
     summarize_by_type cs
       (case map_of summ (intervention_type c) of
          Some n \<Rightarrow> map (\<lambda>(k, v). if k = intervention_type c then (k, n + 1) else (k, v)) summ
        | None \<Rightarrow> summ @ [(intervention_type c, 1)])"

definition update_extracted_text :: "world \<Rightarrow> nat \<Rightarrow> string \<Rightarrow> world" where
  "update_extracted_text w document_id text =
     (if list_ex (\<lambda>d. doc_id d = document_id) (documents (working (db w)))
      then w\<lparr>db := db_commit (db_write (\<lambda>t. t\<lparr>documents :=
                  (let i = length (takeWhile (\<lambda>d. doc_id d \<noteq> document_id) (documents t))
                   in (documents t)[i := (documents t ! i)\<lparr>extracted_text := Some text\<rparr>])\<rparr>)
                (db w))\<rparr>
      else w)"

text \<open>
  The body of the \<^verbatim>\<open>try\<close> of \<^verbatim>\<open>process_document\<close>: the error raised, if any, and the world
  at that point. The analysis row of the run is the last row of its table.
\<close>

definition process_document_try :: "env \<Rightarrow> world \<Rightarrow> nat \<Rightarrow> error option \<times> world" where
  "process_document_try e w document_id =
     (let start_time = now w
      in case find (\<lambda>d. doc_id d = document_id) (documents (working (db w))) of
           None \<Rightarrow> (Some (ValueError ''Document not found''), w)
         | Some doc \<Rightarrow>
             (let provisional =
                    \<lparr>a_document_id = document_id, analysis_started_at = start_time,
                     analysis_completed_at = None, analysis_duration_seconds = None,
                     total_interventions = 0, a_total_cost = 0.0, a_assumptions = None,
                     a_warnings = None, summary_data = None, report_path = None,
                     report_generated_at = None\<rparr>;
                  w0 = w\<lparr>db := db_write (\<lambda>t. t\<lparr>analyses := analyses t @ [provisional]\<rparr>) (db w)\<rparr>
              in if list_ex (\<lambda>a. a_document_id a = document_id) (analyses (working (db w)))
                 then (Some IntegrityError, w0)
                 else
                   (let w1 = w0\<lparr>db := db_commit (db w0)\<rparr>
                    in case extract_text e (file_path doc) of
                         Inl err \<Rightarrow> (Some err, w1)
                       | Inr text \<Rightarrow>
                           (let w2 = update_extracted_text w1 document_id text
                            in if text = [] \<or> length (strip text) < 50
                               then (Some (ValueError ''Insufficient text extracted from document''), w2)
                               else
                                 (case extract_interventions (language e) text of
                                    Inl err \<Rightarrow> (Some err, w2)
                                  | Inr found \<Rightarrow>
                                      if found = []
                                      then (Some (ValueError ''No interventions found in document''), w2)
                                      else
                                        (case interventions_loop e w2 document_id found
                                                \<lparr>t_total_cost = 0.0, t_assumptions = [], t_warnings = []\<rparr> of
                                           (tot, w3) \<Rightarrow>
                                             (let finish = (\<lambda>a. a\<lparr>analysis_completed_at := Some (now w3),
                                                      analysis_duration_seconds := Some (now w3 - start_time),
                                                      total_interventions := length found,
                                                      a_total_cost := t_total_cost tot,
                                                      a_assumptions := Some (t_assumptions tot),
                                                      a_warnings := Some (t_warnings tot),
                                                      summary_data := Some
                                                        \<lparr>interventions_by_type = summarize_by_type found [],
                                                         s_total_interventions = length found,
                                                         s_total_cost = t_total_cost tot\<rparr>\<rparr>);
                                                  upd = (\<lambda>f t. t\<lparr>analyses :=
                                                           (analyses t)[length (analyses t) - 1 :=
                                                              f (last (analyses t))]\<rparr>);
                                                  w4 = w3\<lparr>db := db_write (upd finish) (db w3)\<rparr>
                                              in case generate_report e document_id
                                                        (filter (\<lambda>r. i_document_id r = document_id)
                                                           (interventions (working (db w4))))
                                                        (t_total_cost tot) of
                                                   Inl err \<Rightarrow> (Some err, w4)
                                                 | Inr path \<Rightarrow>
                                                     (let w5 = w4\<lparr>db := db_write
                                                            (upd (\<lambda>a. a\<lparr>report_path := Some path,
                                                                         report_generated_at := Some (now w4)\<rparr>))
                                                            (db w4)\<rparr>
                                                      in (None, w5\<lparr>db := db_commit (db w5)\<rparr>)))))))))"

text \<open>\<^verbatim>\<open>process_document\<close>: on any error the session is rolled back and the error raised again.\<close>

definition process_document :: "env \<Rightarrow> world \<Rightarrow> nat \<Rightarrow> error option \<times> world" where
  "process_document e w document_id =
     (case process_document_try e w document_id of
        (Some err, w') \<Rightarrow> (Some err, w'\<lparr>db := db_rollback (db w')\<rparr>)
      | (None, w') \<Rightarrow> (None, w'))"

text \<open>Worlds: a store with one document and the given rows of the durable cache.\<close>

definition sample_tables :: "price_cache list \<Rightarrow> tables" where
  "sample_tables rows =
     \<lparr>documents = [\<lparr>doc_id = 1, file_path = ''report.txt'', extracted_text = None\<rparr>],
      analyses = [], interventions = [], cost_items = [], price_cache_rows = rows\<rparr>"

definition sample_world :: "price_cache list \<Rightarrow> redis option \<Rightarrow> world" where
  "sample_world rows rc =
     \<lparr>db = \<lparr>durable = sample_tables rows, working = sample_tables rows\<rparr>,
      redis_client = rc, cache_query_fails = False, cache_write_fails = False, now = 1000,
      log = []\<rparr>"

definition sample_row :: "string \<Rightarrow> string \<Rightarrow> real \<Rightarrow> int \<Rightarrow> int \<Rightarrow> price_cache" where
  "sample_row n u rate fetched until =
     \<lparr>pc_material_name = n, pc_unit = u, pc_unit_rate = rate, pc_source = ''CPWD_SOR'',
      pc_source_reference = ''ref'', valid_from = fetched, valid_until = Some until,
      pc_fetched_at = fetched, cache_hits = 0, last_accessed = fetched\<rparr>"

definition sample_redis :: "string \<Rightarrow> real \<Rightarrow> int \<Rightarrow> redis" where
  "sample_redis k rate expires =
     \<lparr>entries = [k \<mapsto> (\<lparr>cp_unit_rate = rate, cp_source = ''GEM'', cp_source_reference = ''ref'',
                          cp_fetched_at = 10\<rparr>, expires)],
      get_raises = False, setex_raises = False\<rparr>"


text \<open>A language model that takes a text as one sentence and finds no entities.\<close>

definition sample_nlp :: nlp where
  "sample_nlp = \<lparr>sents = (\<lambda>t. [t]), ents = (\<lambda>t. [])\<rparr>"

text \<open>An index that ranks the same four documents for every query.\<close>

definition sample_hit :: "string \<Rightarrow> string option \<Rightarrow> string option \<Rightarrow> real \<Rightarrow> hit" where
  "sample_hit i code clause d =
     \<lparr>hit_id = i, hit_metadata = \<lparr>md_code = code, md_clause = clause\<rparr>, hit_distance = Some d\<rparr>"

definition sample_hits :: "hit list" where
  "sample_hits =
     [sample_hit ''IRC 35_clause_4.1'' (Some ''IRC 35'') (Some ''4.1'') 0.2,
      sample_hit ''IRC 35'' (Some ''IRC 35'') None 0.3,
      sample_hit ''stray'' None None 0.4,
      sample_hit ''IRC 67'' (Some ''IRC 67'') None 1.5]"

definition sample_rag :: "bool \<Rightarrow> rag" where
  "sample_rag fails =
     \<lparr>query_fails = fails, ranked = (\<lambda>q. sample_hits),
      irc_standards_db =
        [''IRC 35'' \<mapsto> \<lparr>si_title = ''Code of Practice for Road Markings'',
                          si_description = ''Road markings''\<rparr>]\<rparr>"

text \<open>
  Collaborators: every file holds the given text, the index is down, and the report is
  written or fails as the flag says.
\<close>

definition sample_text :: string where
  "sample_text = ''Install a steel guardrail of 150 m along the river bend at km 12.''"

definition sample_env :: "string \<Rightarrow> bool \<Rightarrow> env" where
  "sample_env text report_ok =
     \<lparr>extract_text = (\<lambda>p. Inr text), language = sample_nlp,
      standards = sample_rag True,
      generate_report = (\<lambda>document_id rows total.
         if report_ok then Inr ''report_document_1.pdf'' else Inl ReportError)\<rparr>"

text \<open>
  What a world holds committed for the pipeline: the types of the intervention rows, the
  materials of the cost items and the documents of the analysis rows.
\<close>

definition committed_rows :: "world \<Rightarrow> string list \<times> string list \<times> nat list" where
  "committed_rows w =
     (map i_intervention_type (interventions (durable (db w))),
      map c_material_name (cost_items (durable (db w))),
      map a_document_id (analyses (durable (db w))))"

section \<open>Properties of deduplication\<close>

lemma merge_loop_filter:
  "filter (\<lambda>c. key_of c = k) (merge_loop cs seen unique) =
     filter (\<lambda>c. key_of c = k) unique @
       (if k \<in> seen then []
        else (case find (\<lambda>c. key_of c = k) cs of None \<Rightarrow> [] | Some c0 \<Rightarrow> [c0]))"
  by (induction cs arbitrary: seen unique) auto

lemma merge_loop_append: "merge_loop cs seen unique = unique @ merge_loop cs seen []"
proof (induction cs arbitrary: seen unique)
  case Nil
  then show ?case by simp
next
  case (Cons c cs)
  show ?case
  proof (cases "key_of c \<in> seen")
    case True
    then show ?thesis using Cons.IH [of seen unique] by simp
  next
    case False
    then show ?thesis
      using Cons.IH [of "insert (key_of c) seen" "unique @ [c]"]
            Cons.IH [of "insert (key_of c) seen" "[c]"] by simp
  qed
qed

lemma merge_loop_subseq: "subseq (merge_loop cs seen []) cs"
proof (induction cs arbitrary: seen)
  case Nil
  then show ?case by simp
next
  case (Cons c cs)
  show ?case
  proof (cases "key_of c \<in> seen")
    case True
    then show ?thesis using Cons.IH [of seen] by (simp add: list_emb_Cons)
  next
    case False
    have "merge_loop (c # cs) seen [] = c # merge_loop cs (insert (key_of c) seen) []"
      using False merge_loop_append [of cs "insert (key_of c) seen" "[c]"] by simp
    then show ?thesis using Cons.IH [of "insert (key_of c) seen"] by simp
  qed
qed

lemma merge_loop_distinct:
  "distinct (map key_of cs) \<Longrightarrow> key_of ` set cs \<inter> seen = {} \<Longrightarrow>
   merge_loop cs seen unique = unique @ cs"
  by (induction cs arbitrary: seen unique) auto

lemma merge_similar_subseq: "subseq (merge_similar_interventions cs) cs"
  by (simp add: merge_similar_interventions_def merge_loop_subseq)

text \<open>
  C5. Of the candidates that share a key (type, location, chainage) the result keeps
  exactly one, the first in the input order (\<open>find\<close> returns the first element with the
  key); a key that does not occur contributes nothing; the result is a subsequence of the
  input, so the retained candidates keep their order; and when all keys are different the
  list is returned unchanged.
\<close>

theorem merge_keeps_first_of_each_key:
  "(find (\<lambda>c. key_of c = k) cs = Some c0 \<longrightarrow>
      filter (\<lambda>c. key_of c = k) (merge_similar_interventions cs) = [c0])
   \<and> (find (\<lambda>c. key_of c = k) cs = None \<longrightarrow>
      filter (\<lambda>c. key_of c = k) (merge_similar_interventions cs) = [])
   \<and> subseq (merge_similar_interventions cs) cs
   \<and> (distinct (map key_of cs) \<longrightarrow> merge_similar_interventions cs = cs)"
proof -
  have a: "filter (\<lambda>c. key_of c = k) (merge_similar_interventions cs) =
      (case find (\<lambda>c. key_of c = k) cs of None \<Rightarrow> [] | Some c0 \<Rightarrow> [c0])"
    by (cases cs)
       (simp_all add: merge_similar_interventions_def merge_loop_filter del: merge_loop.simps)
  have b: "subseq (merge_similar_interventions cs) cs"
    by (rule merge_similar_subseq)
  have c: "distinct (map key_of cs) \<Longrightarrow> merge_similar_interventions cs = cs"
    using merge_loop_distinct [of cs "{}" "[]"] by (simp add: merge_similar_interventions_def)
  show ?thesis using a b c by simp
qed


section \<open>Properties of confidence scoring\<close>

lemma calculate_confidence_closed_form:
  "calculate_confidence s kws qs =
     min 1 (1/2 + min (3/10) (real (length kws) / 10) + (if qs = [] then 0 else 2/10)
            + (if 10 \<le> word_count s \<and> word_count s \<le> 100 then 1/10 else 0))"
  by (simp add: calculate_confidence_def Let_def min_def)

text \<open>
  C7. The score is 0.5, plus 0.1 for each matched keyword up to 0.3, plus 0.2 when a
  quantity was extracted, plus 0.1 when the sentence has between 10 and 100 words, cut off
  at 1.0. With the other two arguments of the scoring function fixed, one more matched
  keyword, one more quantity, or a sentence whose word count lies in [10, 100] in place of
  any other sentence never lowers the score; and the score is at most 1.0.
\<close>

theorem confidence_monotone_and_bounded:
  "calculate_confidence s kws qs =
     min 1 (1/2 + min (3/10) (real (length kws) / 10) + (if qs = [] then 0 else 2/10)
            + (if 10 \<le> word_count s \<and> word_count s \<le> 100 then 1/10 else 0))
   \<and> calculate_confidence s kws qs \<le> calculate_confidence s (kws @ [k]) qs
   \<and> calculate_confidence s kws qs \<le> calculate_confidence s kws (qs @ [q])
   \<and> (10 \<le> word_count s' \<and> word_count s' \<le> 100 \<longrightarrow>
        calculate_confidence s kws qs \<le> calculate_confidence s' kws qs)
   \<and> calculate_confidence s kws qs \<le> 1"
  by (simp add: calculate_confidence_closed_form min_def)

section \<open>Deduplication and scoring on sample data\<close>

theorem merge_keeps_first_of_each_key_witness:
  "find (\<lambda>c. key_of c = (''Signage'', None, Some ''Km 5''))
      [sample_candidate ''Signage'' None (Some ''Km 5'') ''first'',
       sample_candidate ''Drainage'' None None ''other'',
       sample_candidate ''Signage'' None (Some ''Km 5'') ''second'']
     = Some (sample_candidate ''Signage'' None (Some ''Km 5'') ''first'')
   \<and> filter (\<lambda>c. key_of c = (''Signage'', None, Some ''Km 5''))
      (merge_similar_interventions
        [sample_candidate ''Signage'' None (Some ''Km 5'') ''first'',
         sample_candidate ''Drainage'' None None ''other'',
         sample_candidate ''Signage'' None (Some ''Km 5'') ''second''])
     = [sample_candidate ''Signage'' None (Some ''Km 5'') ''first'']
   \<and> distinct (map key_of
        [sample_candidate ''Signage'' None (Some ''Km 5'') ''first'',
         sample_candidate ''Drainage'' None None ''other''])
   \<and> merge_similar_interventions
        [sample_candidate ''Signage'' None (Some ''Km 5'') ''first'',
         sample_candidate ''Drainage'' None None ''other'']
     = [sample_candidate ''Signage'' None (Some ''Km 5'') ''first'',
        sample_candidate ''Drainage'' None None ''other'']"
  using merge_keeps_first_of_each_key [of "(''Signage'', None, Some ''Km 5'')"
      "[sample_candidate ''Signage'' None (Some ''Km 5'') ''first'',
        sample_candidate ''Drainage'' None None ''other'',
        sample_candidate ''Signage'' None (Some ''Km 5'') ''second'']"
      "sample_candidate ''Signage'' None (Some ''Km 5'') ''first''"]
    merge_keeps_first_of_each_key [of _
      "[sample_candidate ''Signage'' None (Some ''Km 5'') ''first'',
        sample_candidate ''Drainage'' None None ''other'']"]
  by (simp add: key_of_def sample_candidate_def)

theorem confidence_monotone_and_bounded_witness:
  "10 \<le> word_count ''a b c d e f g h i j'' \<and> word_count ''a b c d e f g h i j'' \<le> 100
   \<and> calculate_confidence ''guardrail'' [''guardrail''] []
        \<le> calculate_confidence ''a b c d e f g h i j'' [''guardrail''] []"
  using confidence_monotone_and_bounded
    [of "''guardrail''" "[''guardrail'']" "[]" _ _ "''a b c d e f g h i j''"]
  by (simp add: word_count_def split_def is_space_def)

section \<open>Properties of price resolution\<close>

lemma newest_None: "newest xs = None \<longleftrightarrow> xs = []"
  by (induction xs) (auto split: option.splits)

lemma newest_Some:
  "newest xs = Some y \<Longrightarrow>
   y \<in> set xs \<and> (\<forall>x \<in> set xs. pc_fetched_at (snd x) \<le> pc_fetched_at (snd y))"
proof (induction xs arbitrary: y)
  case Nil
  then show ?case by simp
next
  case (Cons x xs)
  show ?case
  proof (cases "newest xs")
    case None
    then have "xs = []" by (simp add: newest_None)
    with Cons.prems show ?thesis by simp
  next
    case (Some z)
    from Cons.IH [OF Some]
    have z: "z \<in> set xs" "\<forall>x \<in> set xs. pc_fetched_at (snd x) \<le> pc_fetched_at (snd z)"
      by simp_all
    show ?thesis
    proof (cases "pc_fetched_at (snd x) < pc_fetched_at (snd z)")
      case True
      with Cons.prems Some have "y = z" by simp
      with z True show ?thesis by auto
    next
      case False
      with Cons.prems Some have "y = x" by simp
      with z False show ?thesis by fastforce
    qed
  qed
qed

lemma query_price_cache_Some:
  assumes "query_price_cache n u t rows = Some (i, row)"
  shows "i < length rows \<and> rows ! i = row \<and> valid_entry n u t row
         \<and> (\<forall>j < length rows. valid_entry n u t (rows ! j) \<longrightarrow>
               pc_fetched_at (rows ! j) \<le> pc_fetched_at row)"
proof -
  let ?xs = "filter (\<lambda>(i, row). valid_entry n u t row) (enumerate 0 rows)"
  from assms have nw: "newest ?xs = Some (i, row)" by (simp add: query_price_cache_def)
  have mem: "(i, row) \<in> set ?xs"
    using newest_Some [OF nw] by blast
  have mx: "\<forall>x \<in> set ?xs. pc_fetched_at (snd x) \<le> pc_fetched_at row"
    using newest_Some [OF nw] by auto
  from mem have a: "i < length rows" "rows ! i = row" "valid_entry n u t row"
    by (auto simp: in_set_enumerate_eq)
  have "pc_fetched_at (rows ! j) \<le> pc_fetched_at row"
    if "j < length rows" "valid_entry n u t (rows ! j)" for j
  proof -
    from that have "(j, rows ! j) \<in> set ?xs" by (auto simp: in_set_enumerate_eq)
    with mx show ?thesis by fastforce
  qed
  with a show ?thesis by simp
qed

lemma query_price_cache_None:
  "query_price_cache n u t rows = None \<longleftrightarrow> (\<forall>row \<in> set rows. \<not> valid_entry n u t row)"
proof -
  have "query_price_cache n u t rows = None \<longleftrightarrow>
        filter (\<lambda>(i, row). valid_entry n u t row) (enumerate 0 rows) = []"
    by (simp add: query_price_cache_def newest_None)
  also have "\<dots> \<longleftrightarrow> (\<forall>p \<in> set (enumerate 0 rows). \<not> valid_entry n u t (snd p))"
    by (auto simp: filter_empty_conv)
  also have "\<dots> \<longleftrightarrow> (\<forall>row \<in> set rows. \<not> valid_entry n u t row)"
  proof
    assume h: "\<forall>p \<in> set (enumerate 0 rows). \<not> valid_entry n u t (snd p)"
    show "\<forall>row \<in> set rows. \<not> valid_entry n u t row"
    proof
      fix row assume "row \<in> set rows"
      then obtain j where "j < length rows" "rows ! j = row" by (auto simp: in_set_conv_nth)
      then have "(j, row) \<in> set (enumerate 0 rows)" by (simp add: in_set_enumerate_eq)
      with h show "\<not> valid_entry n u t row" by fastforce
    qed
  next
    assume h: "\<forall>row \<in> set rows. \<not> valid_entry n u t row"
    show "\<forall>p \<in> set (enumerate 0 rows). \<not> valid_entry n u t (snd p)"
    proof
      fix p assume "p \<in> set (enumerate 0 rows)"
      then have "snd p \<in> set rows" by (metis in_set_enumerate_eq diff_zero nth_mem add_0_right)
      with h show "\<not> valid_entry n u t (snd p)" by simp
    qed
  qed
  finally show ?thesis .
qed

lemma redis_world: "get_cached_price_redis w n u = (c, w0) \<Longrightarrow>
   db w0 = db w \<and> now w0 = now w \<and> redis_client w0 = redis_client w
   \<and> cache_query_fails w0 = cache_query_fails w \<and> cache_write_fails w0 = cache_write_fails w
   \<and> (log w0 = log w \<or> log w0 = log w @ [''Redis get error''])"
  by (auto simp: get_cached_price_redis_def logger_def split: option.splits sum.splits)

lemma tier_fast:
  assumes "fst (get_cached_price_redis w n u) = Some c"
  shows "get_material_price w n q u =
           (Inr \<lparr>p_material_name = n, p_quantity = q, p_unit = u, p_unit_rate = cp_unit_rate c,
             p_total_cost = q * cp_unit_rate c, p_source = cp_source c,
             p_source_reference = cp_source_reference c, p_fetched_at = cp_fetched_at c,
             from_cache = True, is_estimate = False, requires_verification = False\<rparr>,
            logger (''Using cached price for '' @ n) w)"
proof -
  from assms have "get_cached_price_redis w n u = (Some c, w)"
    by (auto simp: get_cached_price_redis_def split: option.splits sum.splits)
  then show ?thesis by (simp add: get_material_price_def get_cached_price_def)
qed

lemma tier_query_error:
  assumes "get_cached_price_redis w n u = (None, w0)" and "cache_query_fails w"
  shows "get_material_price w n q u = (Inl StoreError, w0)"
proof -
  from redis_world [OF assms(1)] assms(2) have "cache_query_fails w0" by simp
  then show ?thesis
    using assms(1) by (simp add: get_material_price_def get_cached_price_def get_cached_price_db_def)
qed

lemma tier_commit_error:
  assumes "get_cached_price_redis w n u = (None, w0)" and "\<not> cache_query_fails w"
      and "cache_write_fails w"
      and "query_price_cache n u (now w) (price_cache_rows (working (db w))) = Some (i, row)"
  shows "fst (get_material_price w n q u) = Inl StoreError"
proof -
  from redis_world [OF assms(1)]
  have e: "db w0 = db w" "now w0 = now w" "cache_query_fails w0 = cache_query_fails w"
    "cache_write_fails w0 = cache_write_fails w" by simp_all
  show ?thesis
    using assms e
    by (simp add: get_material_price_def get_cached_price_def get_cached_price_db_def Let_def)
qed

lemma tier_durable:
  assumes "get_cached_price_redis w n u = (None, w0)"
      and "\<not> cache_query_fails w" and "\<not> cache_write_fails w"
      and "query_price_cache n u (now w) (price_cache_rows (working (db w))) = Some (i, row)"
  shows "get_material_price w n q u =
           (Inr \<lparr>p_material_name = n, p_quantity = q, p_unit = u, p_unit_rate = pc_unit_rate row,
             p_total_cost = q * pc_unit_rate row, p_source = pc_source row,
             p_source_reference = pc_source_reference row, p_fetched_at = pc_fetched_at row,
             from_cache = True, is_estimate = False, requires_verification = False\<rparr>,
            logger (''Using cached price for '' @ n)
              (w0\<lparr>db := db_commit (db_write (\<lambda>t. t\<lparr>price_cache_rows :=
                     (price_cache_rows t)[i := row\<lparr>cache_hits := cache_hits row + 1,
                                                  last_accessed := now w\<rparr>]\<rparr>) (db w))\<rparr>))"
proof -
  from redis_world [OF assms(1)]
  have e: "db w0 = db w" "now w0 = now w" "cache_query_fails w0 = cache_query_fails w"
    "cache_write_fails w0 = cache_write_fails w" by simp_all
  show ?thesis
    using assms e
    by (simp add: get_material_price_def get_cached_price_def get_cached_price_db_def Let_def)
qed

lemma tier_table:
  assumes "get_cached_price_redis w n u = (None, w0)"
      and "\<not> cache_query_fails w"
      and "query_price_cache n u (now w) (price_cache_rows (working (db w))) = None"
      and "map_of material_database n = Some info"
  shows "get_material_price w n q u =
           (Inr \<lparr>p_material_name = n, p_quantity = q, p_unit = u, p_unit_rate = typical_rate info,
             p_total_cost = q * typical_rate info, p_source = ''CPWD_SOR'',
             p_source_reference = (case cpwd_code info of Some c \<Rightarrow> c | None \<Rightarrow> []),
             p_fetched_at = now w, from_cache = False, is_estimate = False,
             requires_verification = False\<rparr>,
            cache_price w0 n u \<lparr>f_unit_rate = typical_rate info, f_source = ''CPWD_SOR'',
               f_reference = (case cpwd_code info of Some c \<Rightarrow> c | None \<Rightarrow> [])\<rparr>)"
proof -
  from redis_world [OF assms(1)]
  have e: "db w0 = db w" "now w0 = now w" "cache_query_fails w0 = cache_query_fails w" by simp_all
  show ?thesis
    using assms e
    by (simp add: get_material_price_def get_cached_price_def get_cached_price_db_def
          fetch_price_from_sources_def)
qed

lemma cache_price_log:
  "\<exists>extra. log (cache_price w n u pd) = log w @ extra
     \<and> set extra \<subseteq> {''Redis cache error'', ''Database cache error''}"
  by (auto simp: cache_price_def Let_def logger_def redis_setex_def split: option.splits sum.splits)

lemma tier_external:
  assumes "get_cached_price_redis w n u = (None, w0)"
      and "\<not> cache_query_fails w"
      and "query_price_cache n u (now w) (price_cache_rows (working (db w))) = None"
      and "map_of material_database n = None"
  shows "get_material_price w n q u =
           map_prod Inr id
             (get_fallback_price
               (logger (''Attempting to fetch '' @ n @ '' from GeM'')
                 (logger (''Attempting to fetch '' @ n @ '' from CPWD SOR'') w0)) n q u)"
proof -
  from redis_world [OF assms(1)]
  have e: "db w0 = db w" "now w0 = now w" "cache_query_fails w0 = cache_query_fails w" by simp_all
  show ?thesis
    using assms e
    by (simp add: get_material_price_def get_cached_price_def get_cached_price_db_def
          fetch_price_from_sources_def fetch_from_cpwd_sor_def fetch_from_gem_def
          split: prod.splits)
qed

lemma fallback_log:
  "\<exists>extra. log (snd (get_fallback_price w n q u)) = log w @ extra
     \<and> set extra \<subseteq> {''No price found for '' @ n @ '', using generic rate''}"
  by (auto simp: get_fallback_price_def Let_def logger_def split: option.splits)

lemma fallback_product:
  "p_total_cost (fst (get_fallback_price w n q u)) = q * p_unit_rate (fst (get_fallback_price w n q u))
   \<and> p_quantity (fst (get_fallback_price w n q u)) = q
   \<and> p_unit (fst (get_fallback_price w n q u)) = u
   \<and> \<not> from_cache (fst (get_fallback_price w n q u))"
  by (simp add: get_fallback_price_def Let_def split: option.splits)

lemma fallback_generic:
  "map_of material_database n = None \<Longrightarrow> fuzzy_match material_database (lower n) = None \<Longrightarrow>
   p_unit_rate (fst (get_fallback_price w n q u)) = 1000
   \<and> is_estimate (fst (get_fallback_price w n q u))
   \<and> requires_verification (fst (get_fallback_price w n q u))"
  by (simp add: get_fallback_price_def Let_def)

text \<open>
  The claim C2 as it was stated fails when the store does not answer: the query on the
  durable cache is not guarded, and its error leaves \<open>get_material_price\<close>.
\<close>

theorem get_material_price_raises_counterexample:
  "fst (get_material_price ((sample_world [] None)\<lparr>cache_query_fails := True\<rparr>)
          ''Bollard'' 4 ''nos'') = Inl StoreError"
  by (simp add: get_material_price_def get_cached_price_def get_cached_price_redis_def
        get_cached_price_db_def sample_world_def)

text \<open>
  The commit of the hit counter is not guarded either, unlike the write of a new row in
  \<open>cache_price\<close>: on a hit in the durable cache a failing commit leaves the function too.
\<close>

lemma hit_counter_commit_raises:
  "fst (get_material_price
          ((sample_world [sample_row ''Rumble Strip'' ''m'' 420 20 5000] None)
             \<lparr>cache_write_fails := True\<rparr>)
          ''Rumble Strip'' 2 ''m'') = Inl StoreError"
proof -
  let ?w = "(sample_world [sample_row ''Rumble Strip'' ''m'' 420 20 5000] None)
             \<lparr>cache_write_fails := True\<rparr>"
  have r: "get_cached_price_redis ?w ''Rumble Strip'' ''m'' = (None, ?w)"
    by (simp add: get_cached_price_redis_def sample_world_def)
  have v: "valid_entry ''Rumble Strip'' ''m'' (now ?w) (sample_row ''Rumble Strip'' ''m'' 420 20 5000)"
    by (simp add: valid_entry_def sample_row_def sample_world_def)
  have "query_price_cache ''Rumble Strip'' ''m'' (now ?w) (price_cache_rows (working (db ?w)))
          \<noteq> None"
    using v by (simp add: query_price_cache_None sample_world_def sample_tables_def)
  then obtain i row where
    "query_price_cache ''Rumble Strip'' ''m'' (now ?w) (price_cache_rows (working (db ?w)))
       = Some (i, row)" by auto
  from tier_commit_error [OF r _ _ this] show ?thesis by (simp add: sample_world_def)
qed

text \<open>
  C2, as amended. \<open>get_material_price\<close> answers with a price whenever the fast cache has
  an entry, and otherwise whenever the store answers the query on the durable cache and,
  on a hit there, accepts the commit of the hit counter; failures of Redis and of the
  write of a new cache row are swallowed. Every price it answers with has as total cost
  the quantity times the unit rate. The two external sources never yield a price. When
  neither cache holds an entry and the reference table has no entry for the name, neither
  under the exact name nor under the fuzzy comparison of the fallback, the answer carries
  the generic rate 1000 and is flagged as an estimate that requires verification.
\<close>

theorem get_material_price_fallback_guarantee:
  "(fst (get_cached_price_redis w n u) \<noteq> None
      \<or> (\<not> cache_query_fails w
          \<and> (\<not> cache_write_fails w
              \<or> query_price_cache n u (now w) (price_cache_rows (working (db w))) = None))
    \<longrightarrow> (\<exists>r. fst (get_material_price w n q u) = Inr r))
   \<and> (fst (get_material_price w n q u) = Inr r' \<longrightarrow>
        p_total_cost r' = p_quantity r' * p_unit_rate r' \<and> p_quantity r' = q \<and> p_unit r' = u)
   \<and> fst (fetch_from_cpwd_sor w n u) = None \<and> fst (fetch_from_gem w n u) = None
   \<and> (fst (get_cached_price_redis w n u) = None
        \<and> \<not> cache_query_fails w
        \<and> query_price_cache n u (now w) (price_cache_rows (working (db w))) = None
        \<and> map_of material_database n = None
        \<and> fuzzy_match material_database (lower n) = None
      \<longrightarrow> (\<exists>r. fst (get_material_price w n q u) = Inr r
               \<and> p_unit_rate r = 1000 \<and> is_estimate r \<and> requires_verification r))"
proof -
  obtain c0 w0 where r: "get_cached_price_redis w n u = (c0, w0)"
    by (cases "get_cached_price_redis w n u")
  let ?q = "query_price_cache n u (now w) (price_cache_rows (working (db w)))"
  let ?w2 = "logger (''Attempting to fetch '' @ n @ '' from GeM'')
                (logger (''Attempting to fetch '' @ n @ '' from CPWD SOR'') w0)"
  have shape: "(\<exists>e. fst (get_material_price w n q u) = Inl e \<and> c0 = None
                    \<and> (cache_query_fails w \<or> (cache_write_fails w \<and> ?q \<noteq> None)))
       \<or> (\<exists>p. fst (get_material_price w n q u) = Inr p
              \<and> p_total_cost p = p_quantity p * p_unit_rate p \<and> p_quantity p = q \<and> p_unit p = u
              \<and> (c0 = None \<and> ?q = None \<and> map_of material_database n = None
                   \<and> fuzzy_match material_database (lower n) = None
                  \<longrightarrow> p_unit_rate p = 1000 \<and> is_estimate p \<and> requires_verification p))"
  proof (cases c0)
    case (Some c)
    with r have "fst (get_cached_price_redis w n u) = Some c" by simp
    from tier_fast [OF this, of q] Some show ?thesis by simp
  next
    case None
    with r have r': "get_cached_price_redis w n u = (None, w0)" by simp
    show ?thesis
    proof (cases "cache_query_fails w")
      case True
      from tier_query_error [OF r' True, of q] None True show ?thesis by simp
    next
      case False
      show ?thesis
      proof (cases ?q)
        case (Some ir)
        obtain i row where ir: "ir = (i, row)" by (cases ir)
        with Some have qs: "?q = Some (i, row)" by simp
        show ?thesis
        proof (cases "cache_write_fails w")
          case True
          from tier_commit_error [OF r' False True qs, of q] None True qs show ?thesis by simp
        next
          case wf: False
          from tier_durable [OF r' False wf qs, of q] qs show ?thesis by simp
        qed
      next
        case qn: None
        show ?thesis
        proof (cases "map_of material_database n")
          case (Some info)
          from tier_table [OF r' False qn Some, of q] Some show ?thesis by simp
        next
          case tn: None
          from tier_external [OF r' False qn tn, of q]
          have "fst (get_material_price w n q u) = Inr (fst (get_fallback_price ?w2 n q u))"
            by simp
          then show ?thesis
            using fallback_product [of ?w2 n q u] fallback_generic [OF tn, of ?w2 q u] by auto
        qed
      qed
    qed
  qed
  have a: "fst (get_cached_price_redis w n u) \<noteq> None
      \<or> (\<not> cache_query_fails w \<and> (\<not> cache_write_fails w \<or> ?q = None))
    \<longrightarrow> (\<exists>r. fst (get_material_price w n q u) = Inr r)"
    using shape r by auto
  have b: "fst (get_material_price w n q u) = Inr r' \<longrightarrow>
        p_total_cost r' = p_quantity r' * p_unit_rate r' \<and> p_quantity r' = q \<and> p_unit r' = u"
    using shape by auto
  have c: "fst (fetch_from_cpwd_sor w n u) = None \<and> fst (fetch_from_gem w n u) = None"
    by (simp add: fetch_from_cpwd_sor_def fetch_from_gem_def)
  have d: "fst (get_cached_price_redis w n u) = None
        \<and> \<not> cache_query_fails w \<and> ?q = None
        \<and> map_of material_database n = None
        \<and> fuzzy_match material_database (lower n) = None
      \<longrightarrow> (\<exists>r. fst (get_material_price w n q u) = Inr r
               \<and> p_unit_rate r = 1000 \<and> is_estimate r \<and> requires_verification r)"
    using shape r by auto
  from a b c d show ?thesis by (intro conjI) (elim conjE, assumption)+
qed

text \<open>
  C3. (1) An unexpired entry of the fast cache under the key of the material and unit is
  the answer, and nothing else happens but one line in the log: the store is not touched.
  (2) When the fast cache yields nothing and the durable cache, which answers, has a valid
  row, the answer is a valid row fetched no earlier than any other valid row; the table
  after the call is the table before with the hit counter of that row one higher and its
  last access set to now, and this is committed. (3) When neither cache yields a price and
  the reference table has the name, the answer is the rate of the table, and no external
  source was attempted: the log gains no line but those of failed cache writes. (4) When
  the reference table has no entry either, the external sources are attempted, CPWD SOR
  and then GeM, as the log shows, before the fallback.
\<close>

theorem price_resolution_chain_order:
  "(redis_client w = Some r \<and> \<not> get_raises r
      \<and> entries r (cache_key n u) = Some (c, expires) \<and> now w < expires
    \<longrightarrow> get_material_price w n q u =
          (Inr \<lparr>p_material_name = n, p_quantity = q, p_unit = u, p_unit_rate = cp_unit_rate c,
            p_total_cost = q * cp_unit_rate c, p_source = cp_source c,
            p_source_reference = cp_source_reference c, p_fetched_at = cp_fetched_at c,
            from_cache = True, is_estimate = False, requires_verification = False\<rparr>,
           logger (''Using cached price for '' @ n) w))
   \<and> (fst (get_cached_price_redis w n u) = None
      \<and> \<not> cache_query_fails w \<and> \<not> cache_write_fails w
      \<and> (\<exists>x \<in> set (price_cache_rows (working (db w))). valid_entry n u (now w) x)
    \<longrightarrow> (\<exists>i < length (price_cache_rows (working (db w))).
          valid_entry n u (now w) (price_cache_rows (working (db w)) ! i)
          \<and> (\<forall>j < length (price_cache_rows (working (db w))).
                valid_entry n u (now w) (price_cache_rows (working (db w)) ! j) \<longrightarrow>
                pc_fetched_at (price_cache_rows (working (db w)) ! j)
                  \<le> pc_fetched_at (price_cache_rows (working (db w)) ! i))
          \<and> fst (get_material_price w n q u) =
               Inr \<lparr>p_material_name = n, p_quantity = q, p_unit = u,
                 p_unit_rate = pc_unit_rate (price_cache_rows (working (db w)) ! i),
                 p_total_cost = q * pc_unit_rate (price_cache_rows (working (db w)) ! i),
                 p_source = pc_source (price_cache_rows (working (db w)) ! i),
                 p_source_reference = pc_source_reference (price_cache_rows (working (db w)) ! i),
                 p_fetched_at = pc_fetched_at (price_cache_rows (working (db w)) ! i),
                 from_cache = True, is_estimate = False, requires_verification = False\<rparr>
          \<and> price_cache_rows (working (db (snd (get_material_price w n q u))))
               = (price_cache_rows (working (db w)))
                   [i := (price_cache_rows (working (db w)) ! i)
                          \<lparr>cache_hits := cache_hits (price_cache_rows (working (db w)) ! i) + 1,
                           last_accessed := now w\<rparr>]
          \<and> durable (db (snd (get_material_price w n q u)))
               = working (db (snd (get_material_price w n q u)))
          \<and> log (snd (get_material_price w n q u))
               = log (snd (get_cached_price_redis w n u)) @ [''Using cached price for '' @ n]))
   \<and> (fst (get_cached_price_redis w n u) = None
      \<and> \<not> cache_query_fails w
      \<and> (\<forall>x \<in> set (price_cache_rows (working (db w))). \<not> valid_entry n u (now w) x)
      \<and> map_of material_database n = Some info
    \<longrightarrow> fst (get_material_price w n q u) =
          Inr \<lparr>p_material_name = n, p_quantity = q, p_unit = u, p_unit_rate = typical_rate info,
            p_total_cost = q * typical_rate info, p_source = ''CPWD_SOR'',
            p_source_reference = (case cpwd_code info of Some c \<Rightarrow> c | None \<Rightarrow> []),
            p_fetched_at = now w, from_cache = False, is_estimate = False,
            requires_verification = False\<rparr>
        \<and> (\<exists>extra. log (snd (get_material_price w n q u))
                      = log (snd (get_cached_price_redis w n u)) @ extra
                  \<and> set extra \<subseteq> {''Redis cache error'', ''Database cache error''}))
   \<and> (fst (get_cached_price_redis w n u) = None
      \<and> \<not> cache_query_fails w
      \<and> (\<forall>x \<in> set (price_cache_rows (working (db w))). \<not> valid_entry n u (now w) x)
      \<and> map_of material_database n = None
    \<longrightarrow> (\<exists>p. fst (get_material_price w n q u) = Inr p \<and> \<not> from_cache p)
        \<and> (\<exists>extra. log (snd (get_material_price w n q u))
                      = log (snd (get_cached_price_redis w n u))
                        @ [''Attempting to fetch '' @ n @ '' from CPWD SOR'',
                           ''Attempting to fetch '' @ n @ '' from GeM'']
                        @ extra
                  \<and> set extra \<subseteq> {''No price found for '' @ n @ '', using generic rate''}))"
proof -
  obtain c0 w0 where r: "get_cached_price_redis w n u = (c0, w0)"
    by (cases "get_cached_price_redis w n u")
  let ?rows = "price_cache_rows (working (db w))"
  have t1: "get_material_price w n q u =
          (Inr \<lparr>p_material_name = n, p_quantity = q, p_unit = u, p_unit_rate = cp_unit_rate c,
            p_total_cost = q * cp_unit_rate c, p_source = cp_source c,
            p_source_reference = cp_source_reference c, p_fetched_at = cp_fetched_at c,
            from_cache = True, is_estimate = False, requires_verification = False\<rparr>,
           logger (''Using cached price for '' @ n) w)"
    if "redis_client w = Some r" "\<not> get_raises r"
       "entries r (cache_key n u) = Some (c, expires)" "now w < expires"
  proof -
    from that have "fst (get_cached_price_redis w n u) = Some c"
      by (simp add: get_cached_price_redis_def redis_get_def)
    then show ?thesis by (rule tier_fast)
  qed
  have t2: "\<exists>i < length ?rows.
          valid_entry n u (now w) (?rows ! i)
          \<and> (\<forall>j < length ?rows. valid_entry n u (now w) (?rows ! j) \<longrightarrow>
                pc_fetched_at (?rows ! j) \<le> pc_fetched_at (?rows ! i))
          \<and> fst (get_material_price w n q u) =
               Inr \<lparr>p_material_name = n, p_quantity = q, p_unit = u,
                 p_unit_rate = pc_unit_rate (?rows ! i),
                 p_total_cost = q * pc_unit_rate (?rows ! i),
                 p_source = pc_source (?rows ! i),
                 p_source_reference = pc_source_reference (?rows ! i),
                 p_fetched_at = pc_fetched_at (?rows ! i),
                 from_cache = True, is_estimate = False, requires_verification = False\<rparr>
          \<and> price_cache_rows (working (db (snd (get_material_price w n q u))))
               = ?rows [i := (?rows ! i)\<lparr>cache_hits := cache_hits (?rows ! i) + 1,
                                          last_accessed := now w\<rparr>]
          \<and> durable (db (snd (get_material_price w n q u)))
               = working (db (snd (get_material_price w n q u)))
          \<and> log (snd (get_material_price w n q u))
               = log (snd (get_cached_price_redis w n u)) @ [''Using cached price for '' @ n]"
    if miss: "fst (get_cached_price_redis w n u) = None"
      and qf: "\<not> cache_query_fails w" and wf: "\<not> cache_write_fails w"
      and ex: "\<exists>x \<in> set ?rows. valid_entry n u (now w) x"
  proof -
    from miss r have r': "get_cached_price_redis w n u = (None, w0)" by simp
    from ex have "query_price_cache n u (now w) ?rows \<noteq> None"
      by (simp add: query_price_cache_None)
    then obtain i row where qr: "query_price_cache n u (now w) ?rows = Some (i, row)"
      by (cases "query_price_cache n u (now w) ?rows") auto
    from query_price_cache_Some [OF qr]
    have i: "i < length ?rows" "?rows ! i = row" "valid_entry n u (now w) row"
      "\<forall>j < length ?rows. valid_entry n u (now w) (?rows ! j) \<longrightarrow>
          pc_fetched_at (?rows ! j) \<le> pc_fetched_at row" by simp_all
    note g = tier_durable [OF r' qf wf qr, of q]
    have "valid_entry n u (now w) (?rows ! i)
          \<and> (\<forall>j < length ?rows. valid_entry n u (now w) (?rows ! j) \<longrightarrow>
                pc_fetched_at (?rows ! j) \<le> pc_fetched_at (?rows ! i))
          \<and> fst (get_material_price w n q u) =
               Inr \<lparr>p_material_name = n, p_quantity = q, p_unit = u,
                 p_unit_rate = pc_unit_rate (?rows ! i),
                 p_total_cost = q * pc_unit_rate (?rows ! i),
                 p_source = pc_source (?rows ! i),
                 p_source_reference = pc_source_reference (?rows ! i),
                 p_fetched_at = pc_fetched_at (?rows ! i),
                 from_cache = True, is_estimate = False, requires_verification = False\<rparr>
          \<and> price_cache_rows (working (db (snd (get_material_price w n q u))))
               = ?rows [i := (?rows ! i)\<lparr>cache_hits := cache_hits (?rows ! i) + 1,
                                          last_accessed := now w\<rparr>]
          \<and> durable (db (snd (get_material_price w n q u)))
               = working (db (snd (get_material_price w n q u)))
          \<and> log (snd (get_material_price w n q u))
               = log (snd (get_cached_price_redis w n u)) @ [''Using cached price for '' @ n]"
      using i r' by (simp add: g logger_def db_commit_def db_write_def)
    with i(1) show ?thesis by blast
  qed
  have t3: "fst (get_material_price w n q u) =
          Inr \<lparr>p_material_name = n, p_quantity = q, p_unit = u, p_unit_rate = typical_rate info,
            p_total_cost = q * typical_rate info, p_source = ''CPWD_SOR'',
            p_source_reference = (case cpwd_code info of Some c \<Rightarrow> c | None \<Rightarrow> []),
            p_fetched_at = now w, from_cache = False, is_estimate = False,
            requires_verification = False\<rparr>
        \<and> (\<exists>extra. log (snd (get_material_price w n q u))
                      = log (snd (get_cached_price_redis w n u)) @ extra
                  \<and> set extra \<subseteq> {''Redis cache error'', ''Database cache error''})"
    if miss: "fst (get_cached_price_redis w n u) = None"
      and qf: "\<not> cache_query_fails w"
      and no: "\<forall>x \<in> set ?rows. \<not> valid_entry n u (now w) x"
      and tb: "map_of material_database n = Some info"
  proof -
    from miss r have r': "get_cached_price_redis w n u = (None, w0)" by simp
    from no have qn: "query_price_cache n u (now w) ?rows = None"
      by (simp add: query_price_cache_None)
    show ?thesis
      using cache_price_log [of w0 n u] r'
      by (simp add: tier_table [OF r' qf qn tb, of q])
  qed
  have t4: "(\<exists>p. fst (get_material_price w n q u) = Inr p \<and> \<not> from_cache p)
        \<and> (\<exists>extra. log (snd (get_material_price w n q u))
                      = log (snd (get_cached_price_redis w n u))
                        @ [''Attempting to fetch '' @ n @ '' from CPWD SOR'',
                           ''Attempting to fetch '' @ n @ '' from GeM'']
                        @ extra
                  \<and> set extra \<subseteq> {''No price found for '' @ n @ '', using generic rate''})"
    if miss: "fst (get_cached_price_redis w n u) = None"
      and qf: "\<not> cache_query_fails w"
      and no: "\<forall>x \<in> set ?rows. \<not> valid_entry n u (now w) x"
      and tb: "map_of material_database n = None"
  proof -
    from miss r have r': "get_cached_price_redis w n u = (None, w0)" by simp
    from no have qn: "query_price_cache n u (now w) ?rows = None"
      by (simp add: query_price_cache_None)
    let ?w2 = "logger (''Attempting to fetch '' @ n @ '' from GeM'')
                (logger (''Attempting to fetch '' @ n @ '' from CPWD SOR'') w0)"
    have nf: "\<not> from_cache (fst (get_fallback_price ?w2 n q u))"
      using fallback_product [of ?w2 n q u] by simp
    from fallback_log [of ?w2 n q u] obtain extra where
      "log (snd (get_fallback_price ?w2 n q u)) = log ?w2 @ extra"
      "set extra \<subseteq> {''No price found for '' @ n @ '', using generic rate''}" by blast
    then show ?thesis
      using nf r' by (simp add: tier_external [OF r' qf qn tb, of q] logger_def)
  qed
  show ?thesis using t1 t2 t3 t4 by blast
qed

theorem get_material_price_fallback_guarantee_witness:
  "fst (get_cached_price_redis (sample_world [] None) ''Bollard'' ''nos'') = None
   \<and> \<not> cache_query_fails (sample_world [] None)
   \<and> query_price_cache ''Bollard'' ''nos'' (now (sample_world [] None))
        (price_cache_rows (working (db (sample_world [] None)))) = None
   \<and> map_of material_database ''Bollard'' = None
   \<and> fuzzy_match material_database (lower ''Bollard'') = None
   \<and> map_sum id p_unit_rate
        (fst (get_material_price (sample_world [] None) ''Bollard'' 4 ''nos'')) = Inr 1000
   \<and> map_sum id p_total_cost
        (fst (get_material_price (sample_world [] None) ''Bollard'' 4 ''nos'')) = Inr 4000
   \<and> map_sum id is_estimate
        (fst (get_material_price (sample_world [] None) ''Bollard'' 4 ''nos'')) = Inr True
   \<and> map_sum id requires_verification
        (fst (get_material_price (sample_world [] None) ''Bollard'' 4 ''nos'')) = Inr True"
proof -
  let ?w = "sample_world [] None"
  have h1: "fst (get_cached_price_redis ?w ''Bollard'' ''nos'') = None"
    by (simp add: get_cached_price_redis_def sample_world_def)
  have h0: "\<not> cache_query_fails ?w" by (simp add: sample_world_def)
  have h2: "query_price_cache ''Bollard'' ''nos'' (now ?w) (price_cache_rows (working (db ?w))) = None"
    by (simp add: query_price_cache_def sample_world_def sample_tables_def)
  have h3: "map_of material_database ''Bollard'' = None" by code_simp
  have h4: "fuzzy_match material_database (lower ''Bollard'') = None" by code_simp
  from get_material_price_fallback_guarantee [of ?w "''Bollard''" "''nos''" 4] h1 h0 h2 h3 h4
  obtain p where p: "fst (get_material_price ?w ''Bollard'' 4 ''nos'') = Inr p"
    "p_unit_rate p = 1000" "is_estimate p" "requires_verification p" by blast
  from get_material_price_fallback_guarantee [of ?w "''Bollard''" "''nos''" 4 p] p(1)
  have "p_total_cost p = p_quantity p * p_unit_rate p" "p_quantity p = 4" by blast+
  with p have "p_total_cost p = 4000" by simp
  with p h1 h0 h2 h3 h4 show ?thesis by simp
qed

theorem price_resolution_chain_order_witness:
  "(redis_client (sample_world [] (Some (sample_redis (cache_key ''Rumble Strip'' ''m'') 500 2000)))
      = Some (sample_redis (cache_key ''Rumble Strip'' ''m'') 500 2000)
    \<and> \<not> get_raises (sample_redis (cache_key ''Rumble Strip'' ''m'') 500 2000)
    \<and> entries (sample_redis (cache_key ''Rumble Strip'' ''m'') 500 2000)
         (cache_key ''Rumble Strip'' ''m'')
        = Some (\<lparr>cp_unit_rate = 500, cp_source = ''GEM'', cp_source_reference = ''ref'',
                  cp_fetched_at = 10\<rparr>, 2000)
    \<and> now (sample_world [] (Some (sample_redis (cache_key ''Rumble Strip'' ''m'') 500 2000))) < 2000
    \<and> map_sum id p_unit_rate (fst (get_material_price
          (sample_world [] (Some (sample_redis (cache_key ''Rumble Strip'' ''m'') 500 2000)))
          ''Rumble Strip'' 2 ''m'')) = Inr 500)
   \<and> (fst (get_cached_price_redis
          (sample_world [sample_row ''Rumble Strip'' ''m'' 400 10 5000,
                         sample_row ''Rumble Strip'' ''m'' 420 20 5000,
                         sample_row ''Rumble Strip'' ''m'' 999 30 500] None)
          ''Rumble Strip'' ''m'') = None
    \<and> \<not> cache_query_fails (sample_world [] None)
    \<and> \<not> cache_write_fails (sample_world [] None)
    \<and> valid_entry ''Rumble Strip'' ''m'' 1000 (sample_row ''Rumble Strip'' ''m'' 420 20 5000)
    \<and> map_sum id p_unit_rate (fst (get_material_price
          (sample_world [sample_row ''Rumble Strip'' ''m'' 400 10 5000,
                         sample_row ''Rumble Strip'' ''m'' 420 20 5000,
                         sample_row ''Rumble Strip'' ''m'' 999 30 500] None)
          ''Rumble Strip'' 2 ''m'')) = Inr 420
    \<and> map cache_hits (price_cache_rows (working (db (snd (get_material_price
          (sample_world [sample_row ''Rumble Strip'' ''m'' 400 10 5000,
                         sample_row ''Rumble Strip'' ''m'' 420 20 5000,
                         sample_row ''Rumble Strip'' ''m'' 999 30 500] None)
          ''Rumble Strip'' 2 ''m''))))) = [0, 1, 0])
   \<and> (fst (get_cached_price_redis (sample_world [] None) ''Rumble Strip'' ''m'') = None
    \<and> map_of material_database ''Rumble Strip''
        = Some (mk_info ''Traffic Calming'' ''m'' ''CPWD-SOR-2023-18.42'' None
                  ''Thermoplastic or milled asphalt'' 450.0)
    \<and> map_sum id p_unit_rate
         (fst (get_material_price (sample_world [] None) ''Rumble Strip'' 2 ''m'')) = Inr 450
    \<and> log (snd (get_material_price (sample_world [] None) ''Rumble Strip'' 2 ''m'')) = [])
   \<and> (fst (get_cached_price_redis (sample_world [] None) ''Bollard'' ''nos'') = None
    \<and> map_of material_database ''Bollard'' = None
    \<and> log (snd (get_material_price (sample_world [] None) ''Bollard'' 2 ''nos''))
        = [''Attempting to fetch Bollard from CPWD SOR'', ''Attempting to fetch Bollard from GeM'',
           ''No price found for Bollard, using generic rate''])"
proof -
  let ?r = "sample_redis (cache_key ''Rumble Strip'' ''m'') 500 2000"
  let ?c = "\<lparr>cp_unit_rate = 500, cp_source = ''GEM'', cp_source_reference = ''ref'',
             cp_fetched_at = 10\<rparr>"
  let ?w1 = "sample_world [] (Some ?r)"
  let ?rows = "[sample_row ''Rumble Strip'' ''m'' 400 10 5000,
                sample_row ''Rumble Strip'' ''m'' 420 20 5000,
                sample_row ''Rumble Strip'' ''m'' 999 30 500]"
  let ?w2 = "sample_world ?rows None"
  let ?w3 = "sample_world [] None"
  let ?info = "mk_info ''Traffic Calming'' ''m'' ''CPWD-SOR-2023-18.42'' None
                  ''Thermoplastic or milled asphalt'' 450.0"
  have a1: "redis_client ?w1 = Some ?r" "\<not> get_raises ?r"
    "entries ?r (cache_key ''Rumble Strip'' ''m'') = Some (?c, 2000)" "now ?w1 < 2000"
    by (simp_all add: sample_world_def sample_redis_def)
  have c1: "map_sum id p_unit_rate (fst (get_material_price ?w1 ''Rumble Strip'' 2 ''m'')) = Inr 500"
    using price_resolution_chain_order
      [of ?w1 ?r "''Rumble Strip''" "''m''" ?c 2000 2] a1 by simp
  have a2: "fst (get_cached_price_redis ?w2 ''Rumble Strip'' ''m'') = None"
    by (simp add: get_cached_price_redis_def sample_world_def)
  have rows2: "price_cache_rows (working (db ?w2)) = ?rows" "now ?w2 = 1000"
    by (simp_all add: sample_world_def sample_tables_def)
  have ok2: "\<not> cache_query_fails ?w2" "\<not> cache_write_fails ?w2"
    by (simp_all add: sample_world_def)
  have v: "valid_entry ''Rumble Strip'' ''m'' 1000 (sample_row ''Rumble Strip'' ''m'' 400 10 5000)"
    "valid_entry ''Rumble Strip'' ''m'' 1000 (sample_row ''Rumble Strip'' ''m'' 420 20 5000)"
    "\<not> valid_entry ''Rumble Strip'' ''m'' 1000 (sample_row ''Rumble Strip'' ''m'' 999 30 500)"
    by (simp_all add: valid_entry_def sample_row_def)
  have ex2: "\<exists>x \<in> set (price_cache_rows (working (db ?w2))).
               valid_entry ''Rumble Strip'' ''m'' (now ?w2) x"
    using v by (simp add: rows2)
  from price_resolution_chain_order
      [of ?w2 _ "''Rumble Strip''" "''m''" _ _ 2] a2 ok2 ex2
  obtain i where i: "i < length ?rows"
    "valid_entry ''Rumble Strip'' ''m'' 1000 (?rows ! i)"
    "\<forall>j < length ?rows. valid_entry ''Rumble Strip'' ''m'' 1000 (?rows ! j) \<longrightarrow>
        pc_fetched_at (?rows ! j) \<le> pc_fetched_at (?rows ! i)"
    "fst (get_material_price ?w2 ''Rumble Strip'' 2 ''m'') =
       Inr \<lparr>p_material_name = ''Rumble Strip'', p_quantity = 2, p_unit = ''m'',
            p_unit_rate = pc_unit_rate (?rows ! i),
            p_total_cost = 2 * pc_unit_rate (?rows ! i),
            p_source = pc_source (?rows ! i),
            p_source_reference = pc_source_reference (?rows ! i),
            p_fetched_at = pc_fetched_at (?rows ! i),
            from_cache = True, is_estimate = False, requires_verification = False\<rparr>"
    "price_cache_rows (working (db (snd (get_material_price ?w2 ''Rumble Strip'' 2 ''m''))))
       = ?rows [i := (?rows ! i)\<lparr>cache_hits := cache_hits (?rows ! i) + 1, last_accessed := 1000\<rparr>]"
    unfolding rows2 by blast
  from i(1) have "i = 0 \<or> i = 1 \<or> i = 2" by auto
  moreover have "i \<noteq> 2" using i(2) v(3) by auto
  moreover have "i \<noteq> 0"
  proof
    assume "i = 0"
    with i(3) [rule_format, of 1] v(2) show False by (simp add: sample_row_def)
  qed
  ultimately have i1: "i = 1" by blast
  have c2: "map_sum id p_unit_rate (fst (get_material_price ?w2 ''Rumble Strip'' 2 ''m'')) = Inr 420"
    using i(4) i1 by (simp add: sample_row_def)
  have c2': "map cache_hits (price_cache_rows (working (db (snd
               (get_material_price ?w2 ''Rumble Strip'' 2 ''m''))))) = [0, 1, 0]"
    using i(5) i1 by (simp add: sample_row_def)
  have a3: "fst (get_cached_price_redis ?w3 ''Rumble Strip'' ''m'') = None"
    "fst (get_cached_price_redis ?w3 ''Bollard'' ''nos'') = None"
    "snd (get_cached_price_redis ?w3 ''Rumble Strip'' ''m'') = ?w3"
    "snd (get_cached_price_redis ?w3 ''Bollard'' ''nos'') = ?w3"
    by (simp_all add: get_cached_price_redis_def sample_world_def)
  have e3: "\<forall>x \<in> set (price_cache_rows (working (db ?w3))). \<not> valid_entry n u (now ?w3) x" for n u
    by (simp add: sample_world_def sample_tables_def)
  have t3: "map_of material_database ''Rumble Strip'' = Some ?info" by code_simp
  have t4: "map_of material_database ''Bollard'' = None" by code_simp
  have l3: "log ?w3 = []" by (simp add: sample_world_def)
  have nc: "\<not> cache_write_fails ?w3" "redis_client ?w3 = None" "\<not> cache_query_fails ?w3"
    by (simp_all add: sample_world_def)
  from price_resolution_chain_order
      [of ?w3 _ "''Rumble Strip''" "''m''" _ _ 2 ?info] a3(1) nc(3) e3 t3
  have c3: "map_sum id p_unit_rate (fst (get_material_price ?w3 ''Rumble Strip'' 2 ''m'')) = Inr 450"
    by (simp add: mk_info_def)
  have c3': "log (snd (get_material_price ?w3 ''Rumble Strip'' 2 ''m'')) = []"
    using tier_table [of ?w3 "''Rumble Strip''" "''m''" ?w3 ?info 2] a3 e3 t3 l3 nc
    by (simp add: query_price_cache_None cache_price_def Let_def prod_eq_iff)
  from price_resolution_chain_order
      [of ?w3 _ "''Bollard''" "''nos''" _ _ 2] a3(2) nc(3) e3 t4
  obtain extra where ex: "log (snd (get_material_price ?w3 ''Bollard'' 2 ''nos''))
      = log (snd (get_cached_price_redis ?w3 ''Bollard'' ''nos''))
        @ [''Attempting to fetch '' @ ''Bollard'' @ '' from CPWD SOR'',
           ''Attempting to fetch '' @ ''Bollard'' @ '' from GeM''] @ extra"
    "set extra \<subseteq> {''No price found for '' @ ''Bollard'' @ '', using generic rate''}"
    by blast
  have fz: "fuzzy_match material_database (lower ''Bollard'') = None" by code_simp
  have c4: "log (snd (get_material_price ?w3 ''Bollard'' 2 ''nos''))
        = [''Attempting to fetch Bollard from CPWD SOR'', ''Attempting to fetch Bollard from GeM'',
           ''No price found for Bollard, using generic rate'']"
    using tier_external [of ?w3 "''Bollard''" "''nos''" ?w3 2] a3 e3 t4 l3 fz nc
    by (simp add: query_price_cache_None get_fallback_price_def Let_def logger_def prod_eq_iff)
  show ?thesis using a1 c1 a2 v(2) c2 c2' a3(1,2) t3 c3 c3' t4 c4 nc by simp
qed

section \<open>Properties of material derivation\<close>

lemma rules_for_nonempty: "rules_for t \<noteq> []"
  by (simp add: rules_for_def Let_def mk_rule_def)

lemma rules_for_table:
  "rules_for t = (case map_of material_rules t of Some rs \<Rightarrow> rs | None \<Rightarrow> [mk_rule t ''nos'' 1.0])"
  by (simp add: rules_for_def Let_def material_rules_def mk_rule_def)

lemma quantity_loop_find:
  "quantity_loop t r q0 qs =
     \<lparr>m_name = rule_name r,
      m_quantity = q_value (case find (unit_matches r) qs of Some q \<Rightarrow> q | None \<Rightarrow> q0) * ratio r,
      m_unit = rule_unit r, m_category = t, m_is_estimate = False\<rparr>"
  by (induction qs) auto

text \<open>
  C10. The derived material list is never empty: it has one material for each rule of the
  intervention type, and a type without an entry in the table of rules gets the single
  generic rule named after the type. So \<open>calculate_intervention_cost\<close> never takes the
  branch for an empty material list, the only one that returns no cost data.
\<close>

theorem identify_materials_never_empty:
  "identify_materials c \<noteq> []
   \<and> length (identify_materials c) = length (rules_for (intervention_type c))
   \<and> (map_of material_rules (intervention_type c) = None \<longrightarrow>
        map m_name (identify_materials c) = [intervention_type c])
   \<and> fst (calculate_intervention_cost w c k) \<noteq> None"
proof -
  have a: "identify_materials c \<noteq> []"
    by (simp add: identify_materials_def rules_for_nonempty)
  have b: "length (identify_materials c) = length (rules_for (intervention_type c))"
    by (simp add: identify_materials_def)
  have d: "map_of material_rules (intervention_type c) = None \<Longrightarrow>
        map m_name (identify_materials c) = [intervention_type c]"
    by (cases "quantities c")
       (simp_all add: identify_materials_def rules_for_table material_for_rule_def mk_rule_def
          quantity_loop_find)
  have e: "fst (calculate_intervention_cost w c k) \<noteq> None"
    using a by (simp add: calculate_intervention_cost_def Let_def split: prod.splits)
  show ?thesis using a b d e by blast
qed


theorem identify_materials_never_empty_witness:
  "map_of material_rules (intervention_type (sample_candidate ''Drainage'' None None ''culvert'')) = None
   \<and> map m_name (identify_materials (sample_candidate ''Drainage'' None None ''culvert''))
       = [''Drainage'']"
proof -
  have h: "map_of material_rules
             (intervention_type (sample_candidate ''Drainage'' None None ''culvert'')) = None"
    by (simp add: sample_candidate_def material_rules_def)
  show ?thesis
    using identify_materials_never_empty
      [of "sample_candidate ''Drainage'' None None ''culvert''"] h
    by (simp add: sample_candidate_def)
qed




section \<open>Properties of pattern extraction\<close>

text \<open>
  C6. On the text \<^verbatim>\<open>10 x 20 m\<close> the extraction yields two quantities: \<^verbatim>\<open>20 m\<close> from the
  first pattern (number and unit), and then the quantity of the two-number pattern, with
  value 200 (the product of 10 and 20), unit m, the raw text with both operands and the
  dimension pair [10, 20].
\<close>

theorem two_number_quantity:
  "extract_quantities ''10 x 20 m'' =
     Inr [\<lparr>q_value = 20, q_unit = ''m'', raw_text = ''20 m'', dimensions = None\<rparr>,
          \<lparr>q_value = 10 * 20, q_unit = ''m'', raw_text = ''10 x 20 m'',
           dimensions = Some [10, 20]\<rparr>]"
  by code_simp

lemma sentences_loop_confidence:
  "sentences_loop nl ss is acc = Inr cs \<Longrightarrow>
   \<forall>c \<in> set acc. 1/2 \<le> confidence_score c \<and> confidence_score c \<le> 1 \<Longrightarrow>
   \<forall>c \<in> set cs. 1/2 \<le> confidence_score c \<and> confidence_score c \<le> 1"
proof (induction "is" arbitrary: acc)
  case Nil
  then show ?case by simp
next
  case (Cons i "is")
  let ?s = "ss ! i"
  let ?kw = "filter (\<lambda>kw. contains kw (lower ?s)) intervention_keywords"
  show ?case
  proof (cases "?kw = []")
    case True
    with Cons.prems(1) have "sentences_loop nl ss is acc = Inr cs" by (simp add: Let_def)
    from Cons.IH [OF this Cons.prems(2)] show ?thesis .
  next
    case False
    show ?thesis
    proof (cases "extract_intervention_details nl ?s ?kw (context_window ss i)")
      case (Inl e)
      with False Cons.prems(1) show ?thesis by (simp add: Let_def)
    next
      case (Inr c)
      with False Cons.prems(1) have l: "sentences_loop nl ss is (acc @ [c]) = Inr cs"
        by (simp add: Let_def)
      from Inr obtain qs where "confidence_score c = calculate_confidence ?s ?kw qs"
        by (auto simp: extract_intervention_details_def Let_def split: sum.splits)
      then have "1/2 \<le> confidence_score c \<and> confidence_score c \<le> 1"
        by (simp add: calculate_confidence_closed_form min_def)
      with Cons.prems(2) have "\<forall>c \<in> set (acc @ [c]). 1/2 \<le> confidence_score c \<and> confidence_score c \<le> 1"
        by auto
      from Cons.IH [OF l this] show ?thesis .
    qed
  qed
qed

text \<open>
  C9. Every candidate that \<open>extract_interventions\<close> produces has a confidence score
  between 0.5 and 1.0.
\<close>

theorem extracted_confidence_in_range:
  "extract_interventions nl text = Inr cs \<longrightarrow>
     (\<forall>c \<in> set cs. 1/2 \<le> confidence_score c \<and> confidence_score c \<le> 1)"
proof
  assume a: "extract_interventions nl text = Inr cs"
  let ?ss = "map strip (sents nl text)"
  from a obtain found where f: "sentences_loop nl ?ss [0..<length ?ss] [] = Inr found"
    and cs: "cs = merge_similar_interventions found"
    by (auto simp: extract_interventions_def Let_def split: sum.splits)
  from sentences_loop_confidence [OF f]
  have b: "\<forall>c \<in> set found. 1/2 \<le> confidence_score c \<and> confidence_score c \<le> 1" by simp
  have "subseq cs found" using cs merge_similar_subseq by simp
  have "set cs \<subseteq> set found"
  proof
    fix x assume x: "x \<in> set cs"
    from list_emb_set [OF \<open>subseq cs found\<close> x] show "x \<in> set found" by blast
  qed
  with b show "\<forall>c \<in> set cs. 1/2 \<le> confidence_score c \<and> confidence_score c \<le> 1" by blast
qed

theorem extracted_confidence_in_range_witness:
  "extract_interventions sample_nlp ''Install guardrail 5 m.'' =
     Inr [\<lparr>intervention_type = ''Safety Barrier'', description = ''Install guardrail 5 m.'',
           location = None, chainage = None, specifications = [],
           quantities = [\<lparr>q_value = 5, q_unit = ''m'', raw_text = ''5 m'', dimensions = None\<rparr>],
           confidence_score = 8 / 10, keywords_matched = [''guardrail''],
           extraction_method = ''hybrid_nlp''\<rparr>]
   \<and> 1/2 \<le> confidence_score
         \<lparr>intervention_type = ''Safety Barrier'', description = ''Install guardrail 5 m.'',
          location = None, chainage = None, specifications = [],
          quantities = [\<lparr>q_value = 5, q_unit = ''m'', raw_text = ''5 m'', dimensions = None\<rparr>],
          confidence_score = 8 / 10, keywords_matched = [''guardrail''],
          extraction_method = ''hybrid_nlp''\<rparr>
   \<and> confidence_score
         \<lparr>intervention_type = ''Safety Barrier'', description = ''Install guardrail 5 m.'',
          location = None, chainage = None, specifications = [],
          quantities = [\<lparr>q_value = 5, q_unit = ''m'', raw_text = ''5 m'', dimensions = None\<rparr>],
          confidence_score = 8 / 10, keywords_matched = [''guardrail''],
          extraction_method = ''hybrid_nlp''\<rparr> \<le> 1"
proof -
  have e: "extract_interventions sample_nlp ''Install guardrail 5 m.'' =
     Inr [\<lparr>intervention_type = ''Safety Barrier'', description = ''Install guardrail 5 m.'',
           location = None, chainage = None, specifications = [],
           quantities = [\<lparr>q_value = 5, q_unit = ''m'', raw_text = ''5 m'', dimensions = None\<rparr>],
           confidence_score = 8 / 10, keywords_matched = [''guardrail''],
           extraction_method = ''hybrid_nlp''\<rparr>]"
    by code_simp
  from extracted_confidence_in_range [THEN mp, OF e] have
    "1/2 \<le> confidence_score
         \<lparr>intervention_type = ''Safety Barrier'', description = ''Install guardrail 5 m.'',
          location = None, chainage = None, specifications = [],
          quantities = [\<lparr>q_value = 5, q_unit = ''m'', raw_text = ''5 m'', dimensions = None\<rparr>],
          confidence_score = 8 / 10, keywords_matched = [''guardrail''],
          extraction_method = ''hybrid_nlp''\<rparr>
     \<and> confidence_score
         \<lparr>intervention_type = ''Safety Barrier'', description = ''Install guardrail 5 m.'',
          location = None, chainage = None, specifications = [],
          quantities = [\<lparr>q_value = 5, q_unit = ''m'', raw_text = ''5 m'', dimensions = None\<rparr>],
          confidence_score = 8 / 10, keywords_matched = [''guardrail''],
          extraction_method = ''hybrid_nlp''\<rparr> \<le> 1"
    by (simp only: list.set ball_simps bex_simps insert_iff empty_iff)
  with e show ?thesis by blast
qed

section \<open>Properties of standards retrieval\<close>

lemma relevance_of_hit:
  "relevance_score (standard_of_hit rg code h)
     = max 0 (1 - min (case hit_distance h of Some d \<Rightarrow> d | None \<Rightarrow> 1) 1)
   \<and> s_code (standard_of_hit rg code h) = code
   \<and> matched_clause (standard_of_hit rg code h) = md_clause (hit_metadata h)"
  by (cases "hit_distance h") (simp_all add: standard_of_hit_def Let_def min_def max_def)

lemma standards_loop_length:
  "length acc < k \<Longrightarrow> length (standards_loop rg k hs seen acc) \<le> k"
  by (induction hs arbitrary: seen acc) (auto simp: Let_def split: option.splits)

lemma standards_loop_shape:
  "\<exists>rest. standards_loop rg k hs seen acc = acc @ rest
     \<and> subseq (map (\<lambda>s. Some (s_code s)) rest) (map (\<lambda>h. md_code (hit_metadata h)) hs)
     \<and> distinct (map s_code rest)
     \<and> (\<forall>s \<in> set rest. s_code s \<notin> seen \<and> s_code s \<noteq> []
           \<and> (\<exists>h. find (\<lambda>h. md_code (hit_metadata h) = Some (s_code s)) hs = Some h
                  \<and> s = standard_of_hit rg (s_code s) h))"
proof (induction hs arbitrary: seen acc)
  case Nil
  then show ?case by simp
next
  case (Cons h hs)
  let ?P = "\<lambda>rest hs seen. subseq (map (\<lambda>s. Some (s_code s)) rest) (map (\<lambda>h. md_code (hit_metadata h)) hs)
     \<and> distinct (map s_code rest)
     \<and> (\<forall>s \<in> set rest. s_code s \<notin> seen \<and> s_code s \<noteq> []
           \<and> (\<exists>h. find (\<lambda>h. md_code (hit_metadata h) = Some (s_code s)) hs = Some h
                  \<and> s = standard_of_hit rg (s_code s) h))"
  consider (skip) "md_code (hit_metadata h) = None
                   \<or> (\<exists>c. md_code (hit_metadata h) = Some c \<and> (c = [] \<or> c \<in> seen))"
    | (take) c where "md_code (hit_metadata h) = Some c" "c \<noteq> []" "c \<notin> seen"
    by (cases "md_code (hit_metadata h)") auto
  then show ?case
  proof cases
    case skip
    then have eq: "standards_loop rg k (h # hs) seen acc = standards_loop rg k hs seen acc"
      by (auto split: option.splits)
    from Cons.IH [of seen acc] obtain rest where
      r: "standards_loop rg k hs seen acc = acc @ rest" and p: "?P rest hs seen" by blast
    have "?P rest (h # hs) seen"
    proof (intro conjI ballI)
      show "subseq (map (\<lambda>s. Some (s_code s)) rest) (map (\<lambda>h. md_code (hit_metadata h)) (h # hs))"
        using p by (simp add: list_emb_Cons)
      show "distinct (map s_code rest)" using p by simp
    next
      fix s assume s: "s \<in> set rest"
      with p have a: "s_code s \<notin> seen" "s_code s \<noteq> []"
        and b: "\<exists>h. find (\<lambda>h. md_code (hit_metadata h) = Some (s_code s)) hs = Some h
                  \<and> s = standard_of_hit rg (s_code s) h" by auto
      show "s_code s \<notin> seen" by (rule a)
      show "s_code s \<noteq> []" by (rule a)
      have "md_code (hit_metadata h) \<noteq> Some (s_code s)" using skip a by auto
      with b show "\<exists>h'. find (\<lambda>h. md_code (hit_metadata h) = Some (s_code s)) (h # hs) = Some h'
                  \<and> s = standard_of_hit rg (s_code s) h'" by simp
    qed
    with r eq show ?thesis by auto
  next
    case take
    let ?sh = "standard_of_hit rg c h"
    have sc: "s_code ?sh = c" by (simp add: relevance_of_hit)
    show ?thesis
    proof (cases "k \<le> length (acc @ [?sh])")
      case True
      with take have eq: "standards_loop rg k (h # hs) seen acc = acc @ [?sh]"
        by (simp add: Let_def)
      have "?P [?sh] (h # hs) seen" using take sc by simp
      with eq show ?thesis by blast
    next
      case False
      with take have eq: "standards_loop rg k (h # hs) seen acc
           = standards_loop rg k hs (insert c seen) (acc @ [?sh])"
        by (simp add: Let_def)
      from Cons.IH [of "insert c seen" "acc @ [?sh]"] obtain rest where
        r: "standards_loop rg k hs (insert c seen) (acc @ [?sh]) = (acc @ [?sh]) @ rest"
        and p: "?P rest hs (insert c seen)" by blast
      have "?P (?sh # rest) (h # hs) seen"
      proof (intro conjI ballI)
        show "subseq (map (\<lambda>s. Some (s_code s)) (?sh # rest))
                (map (\<lambda>h. md_code (hit_metadata h)) (h # hs))"
          using p take sc by simp
        show "distinct (map s_code (?sh # rest))" using p sc by auto
      next
        fix s assume s: "s \<in> set (?sh # rest)"
        show "s_code s \<notin> seen" using s p sc take by auto
        show "s_code s \<noteq> []" using s p sc take by auto
        show "\<exists>h'. find (\<lambda>h. md_code (hit_metadata h) = Some (s_code s)) (h # hs) = Some h'
                  \<and> s = standard_of_hit rg (s_code s) h'"
        proof (cases "s = ?sh")
          case True
          then show ?thesis using take sc by simp
        next
          case False
          with s have "s \<in> set rest" by simp
          with p have a: "s_code s \<noteq> c"
            and b: "\<exists>h. find (\<lambda>h. md_code (hit_metadata h) = Some (s_code s)) hs = Some h
                  \<and> s = standard_of_hit rg (s_code s) h" by auto
          from a take have "md_code (hit_metadata h) \<noteq> Some (s_code s)" by simp
          with b show ?thesis by simp
        qed
      qed
      with r eq show ?thesis by auto
    qed
  qed
qed

lemma remdups_snoc:
  "remdups (ys @ [x]) = filter (\<lambda>y. y \<noteq> x) (remdups ys) @ [x]"
  by (induction ys) auto

lemma first_occurrences_Cons:
  "rev (remdups (rev (x # xs))) = x # filter (\<lambda>y. y \<noteq> x) (rev (remdups (rev xs)))"
  by (simp add: remdups_snoc rev_filter)

lemma standards_loop_codes:
  "length acc < k \<Longrightarrow>
   map s_code (standards_loop rg k hs seen acc) =
     map s_code acc @
     take (k - length acc)
       (filter (\<lambda>c. c \<notin> seen)
          (rev (remdups (rev (filter (\<lambda>c. c \<noteq> [])
             (List.map_filter (\<lambda>h. md_code (hit_metadata h)) hs))))))"
proof (induction hs arbitrary: seen acc)
  case Nil
  then show ?case by simp
next
  case (Cons h hs)
  let ?U = "\<lambda>hs. filter (\<lambda>c. c \<noteq> []) (List.map_filter (\<lambda>h. md_code (hit_metadata h)) hs)"
  let ?F = "\<lambda>xs. rev (remdups (rev xs))"
  consider (none) "md_code (hit_metadata h) = None \<or> md_code (hit_metadata h) = Some []"
    | (seen) c where "md_code (hit_metadata h) = Some c" "c \<noteq> []" "c \<in> seen"
    | (take) c where "md_code (hit_metadata h) = Some c" "c \<noteq> []" "c \<notin> seen"
    by (cases "md_code (hit_metadata h)") auto
  then show ?case
  proof cases
    case none
    then have u: "?U (h # hs) = ?U hs" by auto
    from none have "standards_loop rg k (h # hs) seen acc = standards_loop rg k hs seen acc"
      by auto
    with Cons.IH [OF Cons.prems, of seen] u show ?thesis by simp
  next
    case seen
    then have u: "?U (h # hs) = c # ?U hs" by simp
    have f: "filter (\<lambda>y. y \<notin> seen) (?F (?U (h # hs))) = filter (\<lambda>y. y \<notin> seen) (?F (?U hs))"
      unfolding u first_occurrences_Cons using seen(3)
      by (auto intro: filter_cong)
    from seen have "standards_loop rg k (h # hs) seen acc = standards_loop rg k hs seen acc"
      by simp
    with Cons.IH [OF Cons.prems, of seen] f show ?thesis by simp
  next
    case take
    let ?sh = "standard_of_hit rg c h"
    have sc: "s_code ?sh = c" by (simp add: relevance_of_hit)
    have u: "?U (h # hs) = c # ?U hs" using take by simp
    have f: "filter (\<lambda>y. y \<notin> seen) (?F (?U (h # hs)))
               = c # filter (\<lambda>y. y \<notin> insert c seen) (?F (?U hs))"
      unfolding u first_occurrences_Cons using take(3)
      by (auto intro: filter_cong)
    show ?thesis
    proof (cases "k \<le> length (acc @ [?sh])")
      case True
      with Cons.prems have k: "k - length acc = Suc 0" by simp
      from True take have "standards_loop rg k (h # hs) seen acc = acc @ [?sh]"
        by (simp add: Let_def)
      then show ?thesis unfolding f using sc k by simp
    next
      case False
      then have l: "length (acc @ [?sh]) < k" by simp
      from False take have "standards_loop rg k (h # hs) seen acc
           = standards_loop rg k hs (insert c seen) (acc @ [?sh])"
        by (simp add: Let_def)
      moreover have "k - length acc = Suc (k - length (acc @ [?sh]))" using l by simp
      ultimately show ?thesis
        unfolding f using Cons.IH [OF l, of "insert c seen"] sc by simp
    qed
  qed
qed

text \<open>
  C8. \<open>find_relevant_standards\<close> always returns a list: the empty list when the query
  string formed from the intervention is empty, and the empty list when the query of the
  index raises. The list never has more than \<open>top_k\<close> entries, and no code occurs in it
  twice. When the index answers, the codes of the result are exactly the first \<open>top_k\<close> of
  the distinct non-empty codes of the answer, each at the place of its first occurrence in
  the rank order (\<open>rev (remdups (rev xs))\<close> keeps the first occurrence of every element of
  \<open>xs\<close>); so they are a subsequence of the codes of the answer; and each entry is made from
  the first hit of the answer that carries its code, with the relevance score
  max(0, 1 - min(distance, 1)) of that hit (the distance being 1 when the answer has none).
\<close>

theorem find_relevant_standards_never_aborts:
  "(search_query c = [] \<longrightarrow> find_relevant_standards rg c k = [])
   \<and> (collection_query rg (search_query c) (k * 2) = Inl e \<longrightarrow>
        find_relevant_standards rg c k = [])
   \<and> length (find_relevant_standards rg c k) \<le> k
   \<and> distinct (map s_code (find_relevant_standards rg c k))
   \<and> (search_query c \<noteq> [] \<and> collection_query rg (search_query c) (k * 2) = Inr hits \<longrightarrow>
        map s_code (find_relevant_standards rg c k)
          = take k (rev (remdups (rev (filter (\<lambda>c. c \<noteq> [])
              (List.map_filter (\<lambda>h. md_code (hit_metadata h)) hits)))))
        \<and> subseq (map (\<lambda>s. Some (s_code s)) (find_relevant_standards rg c k))
               (map (\<lambda>h. md_code (hit_metadata h)) hits)
        \<and> (\<forall>s \<in> set (find_relevant_standards rg c k).
              \<exists>h. find (\<lambda>h. md_code (hit_metadata h) = Some (s_code s)) hits = Some h
                  \<and> s = standard_of_hit rg (s_code s) h
                  \<and> relevance_score s
                      = max 0 (1 - min (case hit_distance h of Some d \<Rightarrow> d | None \<Rightarrow> 1) 1)))"
proof -
  let ?f = "find_relevant_standards rg c k"
  have a: "search_query c = [] \<Longrightarrow> ?f = []"
    by (simp add: find_relevant_standards_def find_relevant_standards_try_def)
  have b: "collection_query rg (search_query c) (k * 2) = Inl e \<Longrightarrow> ?f = []"
    by (simp add: find_relevant_standards_def find_relevant_standards_try_def Let_def)
  have run: "?f = standards_loop rg k hits {} [] \<and> 0 < k"
    if "search_query c \<noteq> []" "collection_query rg (search_query c) (k * 2) = Inr hits" for hits
    using that
    by (auto simp: find_relevant_standards_def find_relevant_standards_try_def Let_def
          collection_query_def split: if_splits)
  have cases: "?f = [] \<or> (\<exists>hits. search_query c \<noteq> []
        \<and> collection_query rg (search_query c) (k * 2) = Inr hits)"
    by (cases "collection_query rg (search_query c) (k * 2)")
       (auto simp: find_relevant_standards_def find_relevant_standards_try_def Let_def)
  have len: "length ?f \<le> k"
  proof -
    from cases show ?thesis
    proof
      assume "?f = []" then show ?thesis by simp
    next
      assume "\<exists>hits. search_query c \<noteq> [] \<and> collection_query rg (search_query c) (k * 2) = Inr hits"
      then obtain hs where "?f = standards_loop rg k hs {} []" "0 < k" using run by blast
      then show ?thesis using standards_loop_length [of "[]" k rg hs "{}"] by simp
    qed
  qed
  have dist: "distinct (map s_code ?f)"
  proof -
    from cases show ?thesis
    proof
      assume "?f = []" then show ?thesis by simp
    next
      assume "\<exists>hits. search_query c \<noteq> [] \<and> collection_query rg (search_query c) (k * 2) = Inr hits"
      then obtain hs where "?f = standards_loop rg k hs {} []" using run by blast
      then show ?thesis using standards_loop_shape [of rg k hs "{}" "[]"] by auto
    qed
  qed
  have d: "map s_code ?f
          = take k (rev (remdups (rev (filter (\<lambda>c. c \<noteq> [])
              (List.map_filter (\<lambda>h. md_code (hit_metadata h)) hits)))))
        \<and> subseq (map (\<lambda>s. Some (s_code s)) ?f) (map (\<lambda>h. md_code (hit_metadata h)) hits)
        \<and> (\<forall>s \<in> set ?f.
              \<exists>h. find (\<lambda>h. md_code (hit_metadata h) = Some (s_code s)) hits = Some h
                  \<and> s = standard_of_hit rg (s_code s) h
                  \<and> relevance_score s
                      = max 0 (1 - min (case hit_distance h of Some d \<Rightarrow> d | None \<Rightarrow> 1) 1))"
    if "search_query c \<noteq> []" "collection_query rg (search_query c) (k * 2) = Inr hits"
  proof -
    from run [OF that] have f: "?f = standards_loop rg k hits {} []" and k: "0 < k" by simp_all
    have s0: "map s_code ?f
          = take k (rev (remdups (rev (filter (\<lambda>c. c \<noteq> [])
              (List.map_filter (\<lambda>h. md_code (hit_metadata h)) hits)))))"
      using standards_loop_codes [of "[]" k rg hits "{}"] k f by simp
    from standards_loop_shape [of rg k hits "{}" "[]"] f
    have s1: "subseq (map (\<lambda>s. Some (s_code s)) ?f) (map (\<lambda>h. md_code (hit_metadata h)) hits)"
      and s2: "\<forall>s \<in> set ?f. \<exists>h. find (\<lambda>h. md_code (hit_metadata h) = Some (s_code s)) hits = Some h
                  \<and> s = standard_of_hit rg (s_code s) h" by auto
    have "\<exists>h. find (\<lambda>h. md_code (hit_metadata h) = Some (s_code s)) hits = Some h
                  \<and> s = standard_of_hit rg (s_code s) h
                  \<and> relevance_score s
                      = max 0 (1 - min (case hit_distance h of Some d \<Rightarrow> d | None \<Rightarrow> 1) 1)"
      if "s \<in> set ?f" for s
    proof -
      from s2 that obtain h where h: "find (\<lambda>h. md_code (hit_metadata h) = Some (s_code s)) hits = Some h"
        "s = standard_of_hit rg (s_code s) h" by blast
      from h(2) have "relevance_score s
          = max 0 (1 - min (case hit_distance h of Some d \<Rightarrow> d | None \<Rightarrow> 1) 1)"
        using relevance_of_hit [of rg "s_code s" h] by simp
      with h show ?thesis by blast
    qed
    with s0 s1 show ?thesis by blast
  qed
  show ?thesis using a b len dist d by blast
qed

theorem find_relevant_standards_never_aborts_witness:
  "search_query (sample_candidate [] None None []) = []
   \<and> find_relevant_standards (sample_rag False) (sample_candidate [] None None []) 3 = []
   \<and> collection_query (sample_rag True)
        (search_query (sample_candidate ''Signage'' None None ''Provide signage'')) (3 * 2)
       = Inl QueryError
   \<and> find_relevant_standards (sample_rag True)
        (sample_candidate ''Signage'' None None ''Provide signage'') 3 = []
   \<and> search_query (sample_candidate ''Signage'' None None ''Provide signage'') \<noteq> []
   \<and> collection_query (sample_rag False)
        (search_query (sample_candidate ''Signage'' None None ''Provide signage'')) (3 * 2)
       = Inr sample_hits
   \<and> subseq (map (\<lambda>s. Some (s_code s)) (find_relevant_standards (sample_rag False)
                    (sample_candidate ''Signage'' None None ''Provide signage'') 3))
             (map (\<lambda>h. md_code (hit_metadata h)) sample_hits)
   \<and> map s_code (find_relevant_standards (sample_rag False)
        (sample_candidate ''Signage'' None None ''Provide signage'') 3) = [''IRC 35'', ''IRC 67'']
   \<and> map relevance_score (find_relevant_standards (sample_rag False)
        (sample_candidate ''Signage'' None None ''Provide signage'') 3) = [8 / 10, 0]"
proof -
  let ?e = "sample_candidate [] None None []"
  let ?c = "sample_candidate ''Signage'' None None ''Provide signage''"
  have q1: "search_query ?e = []"
    by (simp add: search_query_def sample_candidate_def strip_def)
  have q2: "search_query ?c = ''Signage Provide signage''"
    by (simp add: search_query_def sample_candidate_def strip_def is_space_def)
  have h2: "collection_query (sample_rag True) (search_query ?c) (3 * 2) = Inl QueryError"
    by (simp add: collection_query_def sample_rag_def)
  have h3: "search_query ?c \<noteq> []" by (simp add: q2)
  have h4: "collection_query (sample_rag False) (search_query ?c) (3 * 2) = Inr sample_hits"
    by (simp add: collection_query_def sample_rag_def sample_hits_def)
  have c1: "find_relevant_standards (sample_rag False) ?e 3 = []"
    using find_relevant_standards_never_aborts [of ?e "sample_rag False" 3] q1 by blast
  have c2: "find_relevant_standards (sample_rag True) ?c 3 = []"
    using find_relevant_standards_never_aborts [of ?c "sample_rag True" 3 QueryError] h2 by blast
  have c3: "subseq (map (\<lambda>s. Some (s_code s)) (find_relevant_standards (sample_rag False) ?c 3))
             (map (\<lambda>h. md_code (hit_metadata h)) sample_hits)"
    using find_relevant_standards_never_aborts [of ?c "sample_rag False" 3 _ sample_hits] h3 h4
    by blast
  have c5: "map s_code (find_relevant_standards (sample_rag False) ?c 3)
      = take 3 (rev (remdups (rev (filter (\<lambda>c. c \<noteq> [])
              (List.map_filter (\<lambda>h. md_code (hit_metadata h)) sample_hits)))))"
    using find_relevant_standards_never_aborts [of ?c "sample_rag False" 3 _ sample_hits] h3 h4
    by blast
  have ev: "find_relevant_standards (sample_rag False) ?c 3
      = [standard_of_hit (sample_rag False) ''IRC 35''
           (sample_hit ''IRC 35_clause_4.1'' (Some ''IRC 35'') (Some ''4.1'') 0.2),
         standard_of_hit (sample_rag False) ''IRC 67''
           (sample_hit ''IRC 67'' (Some ''IRC 67'') None 1.5)]"
    using h3 h4
    by (simp add: find_relevant_standards_def find_relevant_standards_try_def Let_def)
       (simp add: sample_hits_def sample_hit_def)
  have c4: "map s_code (find_relevant_standards (sample_rag False) ?c 3) = [''IRC 35'', ''IRC 67'']"
    unfolding c5 by (simp add: sample_hits_def sample_hit_def)
  have c4': "map relevance_score (find_relevant_standards (sample_rag False) ?c 3) = [8 / 10, 0]"
    by (simp add: ev standard_of_hit_def sample_hit_def Let_def)
  show ?thesis using q1 c1 h2 c2 h3 h4 c3 c4 c4' by (intro conjI)
qed

section \<open>The pipeline on a run that fails\<close>

text \<open>
  C1 does not hold of the code. The pricing service works on the session of the pipeline,
  and \<open>cache_price\<close> commits that session to store a price: the commit also makes durable the
  intervention row and the cost items that the run has added so far. Here the run prices
  two materials from the reference table and then fails in the report step; the rollback
  of \<open>process_document\<close> comes too late for the intervention row and the first cost item,
  which stay committed next to the provisional analysis row.
\<close>

theorem failed_run_leaves_rows_committed:
  "map_prod id committed_rows
     (process_document (sample_env sample_text False) (sample_world [] None) 1)
     = (Some ReportError, [''Safety Barrier''], [''Steel Crash Barrier''], [1])"
  by code_simp

text \<open>
  A text below the minimum length fails the run after the provisional analysis row was
  committed: that row stays, while no intervention or cost item was written.
\<close>

lemma short_text_leaves_analysis_committed:
  "map_prod id committed_rows
     (process_document (sample_env ''Install guardrail 5 m.'' True) (sample_world [] None) 1)
     = (Some (ValueError ''Insufficient text extracted from document''), [], [], [1])"
  by code_simp

text \<open>
  With no quantity extracted the default quantity is priced, and neither an assumption nor
  a warning is recorded for it: the mark \<open>m_is_estimate\<close> of the material is not read.
\<close>

lemma default_quantity_records_no_assumption:
  "fst (calculate_intervention_cost (sample_world [] None)
          (sample_candidate ''Safety Barrier'' None None ''guardrail'') 1)
     = Some \<lparr>cd_total_cost = 100 * 1850 + 33 * 850, cd_assumptions = [], cd_warnings = []\<rparr>"
  by code_simp

end
